theory Spec2Isabelle
  imports Main
begin

section \<open>The SIL graph, as far as BugReducerTester reads and writes it\<close>

text \<open>
  The pass walks the basic blocks of one function, looks at each instruction, and on the
  first apply of the configured target rewrites the block. The embedding keeps what that
  walk can see: functions with a name and a list of blocks, blocks as lists of
  instructions, and instructions with an identity, since operands refer to the
  instruction that defines them. A pointer to an instruction is its identity number; a
  pointer to a function is its name, which is how a module finds its functions.
\<close>

datatype SILRepresentation = Thin | Thick

datatype ParameterConvention = Direct_Unowned | Direct_Guaranteed

datatype ResultConvention = Unowned | Owned

datatype sil_type =
    EmptyTupleType
  | NamedType string
  | SILFunctionType SILRepresentation bool ParameterConvention "sil_type list"
      "(sil_type \<times> ResultConvention) list"

datatype sil_value =
    InstValue nat
  | UndefValue sil_type
  | ArgumentValue nat

datatype inst_kind =
    ApplyInst sil_value "sil_value list" sil_type
  | FunctionRefInst string
  | BuiltinTrapInst
  | UnreachableInst
  | OtherInst string "sil_value list"

datatype sil_instruction = Inst (instId: nat) (instKind: inst_kind)

type_synonym sil_block = "sil_instruction list"

datatype SILLinkage = Shared | OtherLinkage

record sil_function =
  fnName :: string
  fnLoweredType :: sil_type
  fnLinkage :: SILLinkage
  fnBare :: bool
  fnTransparent :: bool
  fnFragile :: bool
  fnThunk :: bool
  fnBlocks :: "sil_block list"

type_synonym sil_module = "sil_function list"

definition allInsts :: "sil_function \<Rightarrow> sil_instruction list" where
  "allInsts F = concat (fnBlocks F)"

definition lookupFunction :: "sil_module \<Rightarrow> string \<Rightarrow> sil_function option" where
  "lookupFunction M n = find (\<lambda>F. fnName F = n) M"

text \<open>Writing through a function pointer: the module's function of that name is replaced.\<close>

definition updateFunction :: "sil_module \<Rightarrow> string \<Rightarrow> sil_function \<Rightarrow> sil_module" where
  "updateFunction M n F' = map (\<lambda>G. if fnName G = n then F' else G) M"

text \<open>Modelled from the spec: \<open>SILFunction::isDefinition\<close> is declared outside this file; the
  spec's data model has a function be a declaration only when it has no blocks.
\<close>

definition isDefinition :: "sil_function \<Rightarrow> bool" where
  "isDefinition F = (fnBlocks F \<noteq> [])"

text \<open>Modelled from the spec: \<open>SILModule::getOrCreateSharedFunction\<close> is defined outside this
  file. The spec gives the module a find-or-create of a shared function by name: a
  function of that name already in the module is returned as it is, otherwise a new one
  is created in the module. The new function has no body yet; the caller gives it one.
\<close>

definition getOrCreateSharedFunction ::
  "sil_module \<Rightarrow> string \<Rightarrow> sil_type \<Rightarrow> bool \<Rightarrow> bool \<Rightarrow> bool \<Rightarrow> bool
     \<Rightarrow> sil_function \<times> sil_module" where
  "getOrCreateSharedFunction M n ty bare transparent fragile thunk =
     (case lookupFunction M n of
        Some F \<Rightarrow> (F, M)
      | None \<Rightarrow>
          (let F = \<lparr> fnName = n, fnLoweredType = ty, fnLinkage = Shared, fnBare = bare,
                     fnTransparent = transparent, fnFragile = fragile, fnThunk = thunk,
                     fnBlocks = [] \<rparr>
           in (F, M @ [F])))"

subsection \<open>Operands and their replacement\<close>

fun operands :: "inst_kind \<Rightarrow> sil_value list" where
  "operands (ApplyInst callee args ty) = callee # args"
| "operands (OtherInst opc ops) = ops"
| "operands k = []"

definition substValue :: "nat \<Rightarrow> sil_value \<Rightarrow> sil_value \<Rightarrow> sil_value" where
  "substValue a u v = (if v = InstValue a then u else v)"

fun replaceUsesInKind :: "nat \<Rightarrow> sil_value \<Rightarrow> inst_kind \<Rightarrow> inst_kind" where
  "replaceUsesInKind a u (ApplyInst callee args ty) =
     ApplyInst (substValue a u callee) (map (substValue a u) args) ty"
| "replaceUsesInKind a u (OtherInst opc ops) = OtherInst opc (map (substValue a u) ops)"
| "replaceUsesInKind a u k = k"

definition replaceUsesInInst :: "nat \<Rightarrow> sil_value \<Rightarrow> sil_instruction \<Rightarrow> sil_instruction" where
  "replaceUsesInInst a u I = Inst (instId I) (replaceUsesInKind a u (instKind I))"

text \<open>
  \<open>V->replaceAllUsesWith(U)\<close>: every operand of the function that reads the value of
  instruction \<open>a\<close> reads \<open>u\<close> afterwards.
\<close>

definition replaceAllUsesWith :: "nat \<Rightarrow> sil_value \<Rightarrow> sil_block list \<Rightarrow> sil_block list" where
  "replaceAllUsesWith a u bs = map (map (replaceUsesInInst a u)) bs"

text \<open>A new instruction gets an identity no instruction of the function has.\<close>

definition freshId :: "sil_function \<Rightarrow> nat" where
  "freshId F = fold max (map (\<lambda>I. Suc (instId I)) (allInsts F)) 0"

section \<open>Configuration and pass state\<close>

datatype FailureKind = OptimizerCrasher | RuntimeMiscompile | RuntimeCrasher | NoneKind

text \<open>
  The two command-line options \<open>bug-reducer-tester-target-func\<close> and
  \<open>bug-reducer-tester-failure-kind\<close> (\<open>FailureKind::None\<close> is \<open>NoneKind\<close> here), and
  whether \<open>assert\<close> is compiled in: it is unless the file is built with \<open>NDEBUG\<close>, and then
  an \<open>assert\<close> does nothing.
\<close>

record config =
  FunctionTarget :: string
  TargetFailureKind :: FailureKind
  AssertsEnabled :: bool

text \<open>The pass object's field, with the module the pass manager runs it on.\<close>

record pass_state =
  passModule :: sil_module
  CausedError :: bool

datatype fatal = AssertionFailed string | UnreachableExecuted string

text \<open>
  An invocation either returns, leaving a state, or terminates the process; the state
  at the moment of termination is kept so that it can be spoken about. A failed
  \<open>assert\<close> terminates the process. \<open>llvm_unreachable\<close> prints its message and
  terminates the process in a build with assertions; in a build without them it is
  \<open>__builtin_unreachable()\<close>, nothing is executed for it, and control goes on with the
  statement that follows.
\<close>

datatype outcome = Returned pass_state | Aborted fatal pass_state

definition RuntimeCrasherFunctionName :: string where
  "RuntimeCrasherFunctionName = ''bug_reducer_runtime_crasher_func''"

section \<open>getRuntimeCrasherFunction\<close>

text \<open>
  Lines 69 to 98. The function type is the thin function type with no parameters and the
  empty tuple, unowned, as its one result. The factory returns the stub and leaves the
  module with it; a stub without a body gets one new block, a trap and an unreachable.
\<close>

definition crasherFuncType :: sil_type where
  "crasherFuncType = SILFunctionType Thin False Direct_Unowned [] [(EmptyTupleType, Unowned)]"

definition getRuntimeCrasherFunction ::
  "config \<Rightarrow> sil_module \<Rightarrow> fatal + (sil_function \<times> sil_module)" where
  "getRuntimeCrasherFunction cfg M =
     (if AssertsEnabled cfg \<and> TargetFailureKind cfg \<noteq> RuntimeCrasher
      then Inl (AssertionFailed ''TargetFailureKind == FailureKind::RuntimeCrasher'')
      else
        (case getOrCreateSharedFunction M RuntimeCrasherFunctionName crasherFuncType
                True False True False of
           (F, M1) \<Rightarrow>
             if isDefinition F then Inr (F, M1)
             else
               (let n = freshId F;
                    BB = [Inst n BuiltinTrapInst, Inst (Suc n) UnreachableInst];
                    F' = F\<lparr> fnBlocks := fnBlocks F @ [BB] \<rparr>
                in Inr (F', updateFunction M1 RuntimeCrasherFunctionName F'))))"

section \<open>run\<close>

text \<open>\<open>dyn_cast<ApplyInst>(&II)\<close>: callee, arguments and result type of an apply.\<close>

definition dyn_cast_ApplyInst ::
  "sil_instruction \<Rightarrow> (sil_value \<times> sil_value list \<times> sil_type) option" where
  "dyn_cast_ApplyInst II =
     (case instKind II of ApplyInst callee args ty \<Rightarrow> Some (callee, args, ty) | _ \<Rightarrow> None)"

text \<open>
  \<open>dyn_cast<FunctionRefInst>(Apply->getCallee())\<close>: the callee is a function_ref when
  the value is defined by such an instruction of the function; the result is the name of
  the function it refers to.
\<close>

definition dyn_cast_FunctionRefInst :: "sil_function \<Rightarrow> sil_value \<Rightarrow> string option" where
  "dyn_cast_FunctionRefInst F v =
     (case v of
        InstValue i \<Rightarrow>
          (case find (\<lambda>J. instId J = i) (allInsts F) of
             Some J \<Rightarrow> (case instKind J of FunctionRefInst nm \<Rightarrow> Some nm | _ \<Rightarrow> None)
           | None \<Rightarrow> None)
      | _ \<Rightarrow> None)"

text \<open>
  The position of an instruction is the pair of loop iterators: the index of its block
  and its index in the block. \<open>eraseFromParent\<close> unlinks the instruction at a position;
  a builder placed at an instruction's iterator inserts in front of it.
\<close>

definition eraseFromParent :: "nat \<Rightarrow> nat \<Rightarrow> sil_block list \<Rightarrow> sil_block list" where
  "eraseFromParent b i bs = bs[b := take i (bs ! b) @ drop (Suc i) (bs ! b)]"

definition insertBefore ::
  "nat \<Rightarrow> nat \<Rightarrow> sil_instruction list \<Rightarrow> sil_block list \<Rightarrow> sil_block list" where
  "insertBefore b i new bs = bs[b := take i (bs ! b) @ new @ drop i (bs ! b)]"

text \<open>
  The body of the loop once the apply is found (lines 117 to 151), for the apply \<open>II\<close>
  at block \<open>b\<close>, index \<open>i\<close> of function \<open>F\<close>. Without assertions the
  \<open>llvm_unreachable\<close> of line 120 and the \<open>assert\<close> of line 134 are not there, so that
  every failure kind but runtime-miscompile goes on to the runtime-crasher rewrite. On
  that path the two new instructions go in front of the apply, which is then at index
  \<open>i + 2\<close>. The lines the pass prints to the debug stream there are not part of the
  state.
\<close>

definition foundTarget ::
  "config \<Rightarrow> pass_state \<Rightarrow> sil_function \<Rightarrow> nat \<Rightarrow> nat \<Rightarrow> sil_instruction
     \<Rightarrow> sil_value \<times> sil_value list \<times> sil_type \<Rightarrow> outcome" where
  "foundTarget cfg st F b i II Apply =
     (if TargetFailureKind cfg = OptimizerCrasher \<and> AssertsEnabled cfg
      then Aborted (UnreachableExecuted ''Found the target!'') st
      else if TargetFailureKind cfg = RuntimeMiscompile
      then
        (let undef = UndefValue (snd (snd Apply));
             replaced = replaceAllUsesWith (instId II) undef (fnBlocks F);
             erased = eraseFromParent b i replaced
         in Returned \<lparr> passModule = updateFunction (passModule st) (fnName F)
                                       (F\<lparr> fnBlocks := erased \<rparr>),
                       CausedError = True \<rparr>)
      else if AssertsEnabled cfg \<and> TargetFailureKind cfg \<noteq> RuntimeCrasher
      then Aborted (AssertionFailed ''TargetFailureKind == FailureKind::RuntimeCrasher'') st
      else
        (case getRuntimeCrasherFunction cfg (passModule st) of
           Inl e \<Rightarrow> Aborted e st
         | Inr (RuntimeCrasherFunc, M1) \<Rightarrow>
             (let n = freshId F;
                  FRI = Inst n (FunctionRefInst (fnName RuntimeCrasherFunc));
                  NewApply = Inst (Suc n) (ApplyInst (InstValue n) [] EmptyTupleType);
                  inserted = insertBefore b i [FRI, NewApply] (fnBlocks F);
                  undef = UndefValue (snd (snd Apply));
                  replaced = replaceAllUsesWith (instId II) undef inserted;
                  erased = eraseFromParent b (i + 2) replaced
              in Returned \<lparr> passModule = updateFunction M1 (fnName F)
                                            (F\<lparr> fnBlocks := erased \<rparr>),
                            CausedError = True \<rparr>)))"

text \<open>
  The inner loop over the instructions of block \<open>b\<close>, from index \<open>i\<close> on. \<open>None\<close> is the
  loop running off the end of the block, so that the outer loop goes on; \<open>continue\<close> is
  the recursive call.
\<close>

fun run_insts ::
  "config \<Rightarrow> pass_state \<Rightarrow> sil_function \<Rightarrow> nat \<Rightarrow> nat \<Rightarrow> sil_instruction list
     \<Rightarrow> outcome option" where
  "run_insts cfg st F b i [] = None"
| "run_insts cfg st F b i (II # rest) =
     (case dyn_cast_ApplyInst II of
        None \<Rightarrow> run_insts cfg st F b (Suc i) rest
      | Some Apply \<Rightarrow>
          (case dyn_cast_FunctionRefInst F (fst Apply) of
             None \<Rightarrow> run_insts cfg st F b (Suc i) rest
           | Some nm \<Rightarrow>
               if nm \<noteq> FunctionTarget cfg
               then run_insts cfg st F b (Suc i) rest
               else Some (foundTarget cfg st F b i II Apply)))"

fun run_blocks ::
  "config \<Rightarrow> pass_state \<Rightarrow> sil_function \<Rightarrow> nat \<Rightarrow> sil_block list \<Rightarrow> outcome" where
  "run_blocks cfg st F b [] = Returned st"
| "run_blocks cfg st F b (BB # rest) =
     (case run_insts cfg st F b 0 BB of
        Some out \<Rightarrow> out
      | None \<Rightarrow> run_blocks cfg st F (Suc b) rest)"

text \<open>
  One invocation of the pass (lines 100 to 154) on the function named \<open>fn\<close> of the
  module. The pass manager only hands over functions of the module; a name the module
  does not hold stands for no function, and nothing is walked.
\<close>

definition run :: "config \<Rightarrow> pass_state \<Rightarrow> string \<Rightarrow> outcome" where
  "run cfg st fn =
     (if FunctionTarget cfg = [] \<or> CausedError st then Returned st
      else if AssertsEnabled cfg \<and> TargetFailureKind cfg = NoneKind
      then Aborted (AssertionFailed ''TargetFailureKind != FailureKind::None'') st
      else
        (case lookupFunction (passModule st) fn of
           None \<Rightarrow> Returned st
         | Some F \<Rightarrow> run_blocks cfg st F 0 (fnBlocks F)))"

text \<open>
  The pass manager's side: one pass object, invoked on a sequence of functions. The
  outcomes are listed in order; nothing runs after the process has terminated.
\<close>

fun runAll :: "config \<Rightarrow> pass_state \<Rightarrow> string list \<Rightarrow> outcome list" where
  "runAll cfg st [] = []"
| "runAll cfg st (fn # fns) =
     (case run cfg st fn of
        Returned st' \<Rightarrow> Returned st' # runAll cfg st' fns
      | Aborted e s \<Rightarrow> [Aborted e s])"

section \<open>The invocation as a sequence of actions\<close>














section \<open>The spec's Matcher, and the sample module\<close>

text \<open>
  The Matcher in the spec's words: a Call whose callee is a direct FunctionReference that
  resolves to a function of the target name; the first such instruction, blocks in the
  function's order and instructions in program order; no match for an empty name.
\<close>

definition isDirectCallTo :: "sil_function \<Rightarrow> string \<Rightarrow> sil_instruction \<Rightarrow> bool" where
  "isDirectCallTo F tgt I =
     (case instKind I of
        ApplyInst callee args ty \<Rightarrow>
          (case callee of
             InstValue c \<Rightarrow>
               (case find (\<lambda>J. instId J = c) (allInsts F) of
                  Some J \<Rightarrow> instKind J = FunctionRefInst tgt
                | None \<Rightarrow> False)
           | _ \<Rightarrow> False)
      | _ \<Rightarrow> False)"

definition findTargetCall :: "sil_function \<Rightarrow> string \<Rightarrow> sil_instruction option" where
  "findTargetCall F tgt =
     (if tgt = [] then None else find (isDirectCallTo F tgt) (allInsts F))"

definition hasTargetCall :: "sil_module \<Rightarrow> string \<Rightarrow> string \<Rightarrow> bool" where
  "hasTargetCall M tgt fn =
     (case lookupFunction M fn of
        None \<Rightarrow> False
      | Some F \<Rightarrow> findTargetCall F tgt \<noteq> None)"

text \<open>A callee that is the value of a function_ref instruction of the function.\<close>

definition isFunctionRefValue :: "sil_function \<Rightarrow> sil_value \<Rightarrow> bool" where
  "isFunctionRefValue F v =
     (case v of
        InstValue c \<Rightarrow>
          (case find (\<lambda>J. instId J = c) (allInsts F) of
             Some J \<Rightarrow> (case instKind J of FunctionRefInst nm \<Rightarrow> True | _ \<Rightarrow> False)
           | None \<Rightarrow> False)
      | _ \<Rightarrow> False)"

text \<open>
  A small module to run the pass on. \<open>caller\<close> calls through its argument first (an
  indirect call), then calls \<open>target\<close> directly in its second block and returns the
  result; \<open>other\<close> calls \<open>target\<close> too.
\<close>

definition plainFunction :: "string \<Rightarrow> sil_block list \<Rightarrow> sil_function" where
  "plainFunction n bs =
     \<lparr> fnName = n, fnLoweredType = SILFunctionType Thin False Direct_Unowned [] [],
       fnLinkage = OtherLinkage, fnBare = False, fnTransparent = False, fnFragile = False,
       fnThunk = False, fnBlocks = bs \<rparr>"

definition exCallerEntry :: sil_block where
  "exCallerEntry =
     [Inst 0 (FunctionRefInst ''target''),
      Inst 1 (ApplyInst (ArgumentValue 0) [] (NamedType ''Int'')),
      Inst 2 (OtherInst ''br'' [])]"

definition exCallerBody :: sil_block where
  "exCallerBody =
     [Inst 3 (ApplyInst (InstValue 0) [InstValue 1] (NamedType ''Int'')),
      Inst 4 (OtherInst ''return'' [InstValue 3])]"

definition exCaller :: sil_function where
  "exCaller = plainFunction ''caller'' [exCallerEntry, exCallerBody]"

definition exOther :: sil_function where
  "exOther =
     plainFunction ''other''
       [[Inst 0 (FunctionRefInst ''target''),
         Inst 1 (ApplyInst (InstValue 0) [] (NamedType ''Int'')),
         Inst 2 (OtherInst ''return'' [InstValue 1])]]"

definition exIdle :: sil_function where
  "exIdle = plainFunction ''idle'' [[Inst 0 (OtherInst ''return'' [])]]"

definition exModule :: sil_module where
  "exModule = [exIdle, exCaller, exOther]"

definition exState :: pass_state where
  "exState = \<lparr> passModule = exModule, CausedError = False \<rparr>"

definition exConfig :: "FailureKind \<Rightarrow> bool \<Rightarrow> config" where
  "exConfig k a = \<lparr> FunctionTarget = ''target'', TargetFailureKind = k, AssertsEnabled = a \<rparr>"

text \<open>
  The same module when it already defines a function under the stub's name, with a body
  of its own.
\<close>

definition exUserStub :: sil_function where
  "exUserStub =
     plainFunction ''bug_reducer_runtime_crasher_func'' [[Inst 0 (OtherInst ''return'' [])]]"

definition exStateWithStub :: pass_state where
  "exStateWithStub = \<lparr> passModule = exUserStub # exModule, CausedError = False \<rparr>"

text \<open>\<open>caller\<close> as the runtime-crasher injection leaves it.\<close>

definition exCallerCrashed :: sil_function where
  "exCallerCrashed =
     plainFunction ''caller''
       [exCallerEntry,
        [Inst 5 (FunctionRefInst ''bug_reducer_runtime_crasher_func''),
         Inst 6 (ApplyInst (InstValue 5) [] EmptyTupleType),
         Inst 4 (OtherInst ''return'' [UndefValue (NamedType ''Int'')])]]"



text \<open>\<open>caller\<close> and the sample state as the miscompile injection leaves them.\<close>

definition exCallerMiscompiled :: sil_function where
  "exCallerMiscompiled =
     plainFunction ''caller''
       [exCallerEntry, [Inst 4 (OtherInst ''return'' [UndefValue (NamedType ''Int'')])]]"

definition exStateMiscompiled :: pass_state where
  "exStateMiscompiled =
     \<lparr> passModule = [exIdle, exCallerMiscompiled, exOther], CausedError = True \<rparr>"

section \<open>The walk stops at the first direct call of the target\<close>

lemma run_insts_continue:
  "\<not> isDirectCallTo F (FunctionTarget cfg) II \<Longrightarrow>
   run_insts cfg st F b i (II # rest) = run_insts cfg st F b (Suc i) rest"
  by (auto simp: isDirectCallTo_def dyn_cast_ApplyInst_def dyn_cast_FunctionRefInst_def
           split: inst_kind.splits sil_value.splits option.splits)

lemma run_insts_hit:
  "isDirectCallTo F (FunctionTarget cfg) II \<Longrightarrow> instKind II = ApplyInst c args ty \<Longrightarrow>
   run_insts cfg st F b i (II # rest) = Some (foundTarget cfg st F b i II (c, args, ty))"
  by (auto simp: isDirectCallTo_def dyn_cast_ApplyInst_def dyn_cast_FunctionRefInst_def
           split: inst_kind.splits sil_value.splits option.splits)

lemma isDirectCallTo_apply:
  "isDirectCallTo F tgt II \<Longrightarrow> \<exists>c args ty. instKind II = ApplyInst (InstValue c) args ty"
  by (auto simp: isDirectCallTo_def split: inst_kind.splits sil_value.splits option.splits)

lemma run_insts_none:
  "\<forall>I\<in>set is. \<not> isDirectCallTo F (FunctionTarget cfg) I \<Longrightarrow> run_insts cfg st F b i is = None"
proof (induction "is" arbitrary: i)
  case Nil
  show ?case by simp
next
  case (Cons I rest)
  then show ?case by (simp add: run_insts_continue del: run_insts.simps)
qed

lemma run_insts_first:
  assumes "\<forall>I\<in>set is1. \<not> isDirectCallTo F (FunctionTarget cfg) I"
    and "isDirectCallTo F (FunctionTarget cfg) II"
    and "instKind II = ApplyInst c args ty"
  shows "run_insts cfg st F b i (is1 @ II # is2)
           = Some (foundTarget cfg st F b (i + length is1) II (c, args, ty))"
  using assms(1)
proof (induction is1 arbitrary: i)
  case Nil
  show ?case using run_insts_hit[OF assms(2,3)] by simp
next
  case (Cons I rest)
  then show ?case by (simp add: run_insts_continue del: run_insts.simps)
qed

lemma run_blocks_none:
  "\<forall>I\<in>set (concat bs). \<not> isDirectCallTo F (FunctionTarget cfg) I \<Longrightarrow>
   run_blocks cfg st F b bs = Returned st"
proof (induction bs arbitrary: b)
  case Nil
  show ?case by simp
next
  case (Cons B rest)
  then show ?case by (simp add: run_insts_none)
qed

lemma run_blocks_first:
  assumes "\<forall>I\<in>set (concat bs1). \<not> isDirectCallTo F (FunctionTarget cfg) I"
    and "\<forall>I\<in>set is1. \<not> isDirectCallTo F (FunctionTarget cfg) I"
    and "isDirectCallTo F (FunctionTarget cfg) II"
    and "instKind II = ApplyInst c args ty"
  shows "run_blocks cfg st F b (bs1 @ (is1 @ II # is2) # bs2)
           = foundTarget cfg st F (b + length bs1) (length is1) II (c, args, ty)"
  using assms(1)
proof (induction bs1 arbitrary: b)
  case Nil
  show ?case using run_insts_first[OF assms(2,3,4), of st b 0 is2] by simp
next
  case (Cons B rest)
  then show ?case by (simp add: run_insts_none)
qed

lemma find_append_case:
  "find P (xs @ ys) = (case find P xs of None \<Rightarrow> find P ys | Some x \<Rightarrow> Some x)"
  by (induction xs) auto

lemma find_concat_first:
  "find P (concat bs) = Some x \<Longrightarrow>
   \<exists>bs1 is1 is2 bs2. bs = bs1 @ (is1 @ x # is2) # bs2
      \<and> (\<forall>y\<in>set (concat bs1). \<not> P y) \<and> (\<forall>y\<in>set is1. \<not> P y) \<and> P x"
proof (induction bs)
  case Nil
  then show ?case by simp
next
  case (Cons B rest)
  show ?case
  proof (cases "find P B")
    case None
    then have nB: "\<forall>y\<in>set B. \<not> P y" by (simp add: find_None_iff)
    from Cons.prems None have "find P (concat rest) = Some x"
      by (simp add: find_append_case)
    from Cons.IH[OF this] obtain bs1 is1 is2 bs2 where
      d: "rest = bs1 @ (is1 @ x # is2) # bs2" "\<forall>y\<in>set (concat bs1). \<not> P y"
         "\<forall>y\<in>set is1. \<not> P y" "P x" by blast
    have "B # rest = (B # bs1) @ (is1 @ x # is2) # bs2" using d(1) by simp
    moreover have "\<forall>y\<in>set (concat (B # bs1)). \<not> P y" using nB d(2) by auto
    ultimately show ?thesis using d(3,4) by blast
  next
    case (Some y)
    with Cons.prems have xy: "find P B = Some x" by (simp add: find_append_case)
    then obtain i where i: "i < length B" "P (B ! i)" "x = B ! i" "\<forall>j<i. \<not> P (B ! j)"
      by (auto simp: find_Some_iff)
    have B: "B = take i B @ x # drop (Suc i) B" using i(1,3) by (simp add: id_take_nth_drop)
    have "\<forall>y\<in>set (take i B). \<not> P y"
      using i(1,4) by (auto simp: in_set_conv_nth)
    moreover have "B # rest = [] @ (take i B @ x # drop (Suc i) B) # rest" using B by simp
    ultimately show ?thesis using i(2,3) by (metis concat.simps(1) empty_iff list.set(1))
  qed
qed


subsection \<open>Module lookups\<close>

lemma lookupFunction_name: "lookupFunction M n = Some F \<Longrightarrow> fnName F = n"
  by (auto simp: lookupFunction_def find_Some_iff)

lemma lookupFunction_update_same:
  "lookupFunction M n = Some F \<Longrightarrow> fnName G = n \<Longrightarrow>
   lookupFunction (updateFunction M n G) n = Some G"
  unfolding lookupFunction_def updateFunction_def
  by (induction M) (auto split: if_splits)

lemma lookupFunction_update_other:
  "n' \<noteq> n \<Longrightarrow> fnName G = n \<Longrightarrow>
   lookupFunction (updateFunction M n G) n' = lookupFunction M n'"
  unfolding lookupFunction_def updateFunction_def
  by (induction M) auto

lemma lookupFunction_update_absent:
  "lookupFunction M n = None \<Longrightarrow> updateFunction M n G = M"
  unfolding lookupFunction_def updateFunction_def
  by (induction M) (auto split: if_splits)

lemma lookupFunction_append:
  "lookupFunction (M @ M') n
     = (case lookupFunction M n of None \<Rightarrow> lookupFunction M' n | Some F \<Rightarrow> Some F)"
  by (simp add: lookupFunction_def find_append_case split: option.splits)

subsection \<open>Positions\<close>

lemma eraseFromParent_at:
  "length bs1 = b \<Longrightarrow> length is1 = i \<Longrightarrow>
   eraseFromParent b i (bs1 @ (is1 @ x # is2) # bs2) = bs1 @ (is1 @ is2) # bs2"
  by (auto simp: eraseFromParent_def)

lemma insertBefore_at:
  "length bs1 = b \<Longrightarrow> length is1 = i \<Longrightarrow>
   insertBefore b i new (bs1 @ (is1 @ x # is2) # bs2) = bs1 @ (is1 @ new @ x # is2) # bs2"
  by (auto simp: insertBefore_def)

lemma replaceAllUsesWith_at:
  "replaceAllUsesWith a u (bs1 @ (is1 @ x # is2) # bs2)
     = replaceAllUsesWith a u bs1
         @ (map (replaceUsesInInst a u) is1 @ replaceUsesInInst a u x
              # map (replaceUsesInInst a u) is2)
         # replaceAllUsesWith a u bs2"
  by (simp add: replaceAllUsesWith_def)

lemma length_replaceAllUsesWith: "length (replaceAllUsesWith a u bs) = length bs"
  by (simp add: replaceAllUsesWith_def)

lemma operands_replaceUsesInKind:
  "operands (replaceUsesInKind a u k) = map (substValue a u) (operands k)"
  by (cases k) simp_all

lemma foundTarget_miscompile:
  assumes "TargetFailureKind cfg = RuntimeMiscompile"
    and "fnBlocks F = bs1 @ (is1 @ II # is2) # bs2"
  shows "foundTarget cfg st F (length bs1) (length is1) II (c, args, ty)
           = Returned \<lparr> passModule = updateFunction (passModule st) (fnName F)
                 (F\<lparr> fnBlocks := replaceAllUsesWith (instId II) (UndefValue ty) bs1
                        @ (map (replaceUsesInInst (instId II) (UndefValue ty)) is1
                             @ map (replaceUsesInInst (instId II) (UndefValue ty)) is2)
                        # replaceAllUsesWith (instId II) (UndefValue ty) bs2 \<rparr>),
               CausedError = True \<rparr>"
  using assms
  by (simp add: foundTarget_def Let_def replaceAllUsesWith_at eraseFromParent_at
        length_replaceAllUsesWith)

lemma fold_max_ge_init: "(a::nat) \<le> fold max xs a"
proof (induction xs arbitrary: a)
  case Nil
  show ?case by simp
next
  case (Cons x xs)
  have "a \<le> max x a" by simp
  also have "\<dots> \<le> fold max xs (max x a)" by (rule Cons.IH)
  finally show ?case by simp
qed

lemma fold_max_ge_elem: "x \<in> set xs \<Longrightarrow> (x::nat) \<le> fold max xs a"
proof (induction xs arbitrary: a)
  case Nil
  then show ?case by simp
next
  case (Cons y ys)
  show ?case
  proof (cases "x = y")
    case True
    have "x \<le> max y a" using True by simp
    also have "\<dots> \<le> fold max ys (max y a)" by (rule fold_max_ge_init)
    finally show ?thesis by simp
  next
    case False
    with Cons.prems have "x \<in> set ys" by simp
    from Cons.IH[OF this] show ?thesis by simp
  qed
qed

lemma freshId_fresh: "I \<in> set (allInsts F) \<Longrightarrow> instId I < freshId F"
proof -
  assume "I \<in> set (allInsts F)"
  then have "Suc (instId I) \<in> set (map (\<lambda>I. Suc (instId I)) (allInsts F))" by force
  from fold_max_ge_elem[OF this, of 0] show ?thesis by (simp add: freshId_def)
qed

lemma foundTarget_crasher:
  assumes "TargetFailureKind cfg = RuntimeCrasher"
    and "fnBlocks F = bs1 @ (is1 @ II # is2) # bs2"
    and "getRuntimeCrasherFunction cfg (passModule st) = Inr (S, M1)"
  shows "foundTarget cfg st F (length bs1) (length is1) II (c, args, ty)
           = Returned \<lparr> passModule = updateFunction M1 (fnName F)
                 (F\<lparr> fnBlocks := replaceAllUsesWith (instId II) (UndefValue ty) bs1
                        @ (map (replaceUsesInInst (instId II) (UndefValue ty)) is1
                             @ [Inst (freshId F) (FunctionRefInst (fnName S)),
                                Inst (Suc (freshId F))
                                  (ApplyInst (InstValue (freshId F)) [] EmptyTupleType)]
                             @ map (replaceUsesInInst (instId II) (UndefValue ty)) is2)
                        # replaceAllUsesWith (instId II) (UndefValue ty) bs2 \<rparr>),
               CausedError = True \<rparr>"
proof -
  let ?r = "replaceUsesInInst (instId II) (UndefValue ty)"
  let ?R = "replaceAllUsesWith (instId II) (UndefValue ty)"
  let ?new = "[Inst (freshId F) (FunctionRefInst (fnName S)),
               Inst (Suc (freshId F)) (ApplyInst (InstValue (freshId F)) [] EmptyTupleType)]"
  have "II \<in> set (allInsts F)" using assms(2) by (simp add: allInsts_def)
  then have ne: "freshId F \<noteq> instId II" using freshId_fresh by fastforce
  have new: "map ?r ?new = ?new"
    using ne by (simp add: replaceUsesInInst_def substValue_def)
  have ins: "insertBefore (length bs1) (length is1) ?new (fnBlocks F)
               = bs1 @ ((is1 @ ?new) @ II # is2) # bs2"
    using assms(2) by (simp add: insertBefore_at)
  have "eraseFromParent (length bs1) (Suc (Suc (length is1)))
              (?R (bs1 @ ((is1 @ ?new) @ II # is2) # bs2))
            = ?R bs1 @ (map ?r (is1 @ ?new) @ map ?r is2) # ?R bs2"
    unfolding replaceAllUsesWith_at
    by (rule eraseFromParent_at) (simp_all add: length_replaceAllUsesWith)
  also have "map ?r (is1 @ ?new) = map ?r is1 @ ?new"
    using new by simp
  finally have comp: "eraseFromParent (length bs1) (Suc (Suc (length is1)))
      (?R (insertBefore (length bs1) (length is1) ?new (fnBlocks F)))
      = ?R bs1 @ ((map ?r is1 @ ?new) @ map ?r is2) # ?R bs2"
    unfolding ins .
  show ?thesis
    using assms(1,3) by (simp add: foundTarget_def Let_def comp)
qed

subsection \<open>One invocation\<close>

lemma findTargetCall_decomp:
  assumes "findTargetCall F tgt = Some II"
  shows "\<exists>bs1 is1 is2 bs2 c args ty.
           fnBlocks F = bs1 @ (is1 @ II # is2) # bs2
         \<and> (\<forall>I\<in>set (concat bs1). \<not> isDirectCallTo F tgt I)
         \<and> (\<forall>I\<in>set is1. \<not> isDirectCallTo F tgt I)
         \<and> isDirectCallTo F tgt II
         \<and> instKind II = ApplyInst (InstValue c) args ty"
proof -
  from assms have f: "find (isDirectCallTo F tgt) (concat (fnBlocks F)) = Some II"
    by (simp add: findTargetCall_def allInsts_def split: if_splits)
  from find_concat_first[OF f] obtain bs1 is1 is2 bs2 where
    d: "fnBlocks F = bs1 @ (is1 @ II # is2) # bs2"
       "\<forall>y\<in>set (concat bs1). \<not> isDirectCallTo F tgt y"
       "\<forall>y\<in>set is1. \<not> isDirectCallTo F tgt y" "isDirectCallTo F tgt II"
    by blast
  from isDirectCallTo_apply[OF d(4)] obtain c args ty where
    "instKind II = ApplyInst (InstValue c) args ty" by blast
  with d show ?thesis by blast
qed

lemma run_no_match:
  assumes "\<not> (AssertsEnabled cfg \<and> TargetFailureKind cfg = NoneKind)"
    and "lookupFunction (passModule st) fn = Some F"
    and "\<forall>I\<in>set (allInsts F). \<not> isDirectCallTo F (FunctionTarget cfg) I"
  shows "run cfg st fn = Returned st"
  using assms by (auto simp: run_def run_blocks_none allInsts_def)

lemma run_first_match:
  assumes "FunctionTarget cfg \<noteq> []" and "\<not> CausedError st"
    and "\<not> (AssertsEnabled cfg \<and> TargetFailureKind cfg = NoneKind)"
    and "lookupFunction (passModule st) fn = Some F"
    and "fnBlocks F = bs1 @ (is1 @ II # is2) # bs2"
    and "\<forall>I\<in>set (concat bs1). \<not> isDirectCallTo F (FunctionTarget cfg) I"
    and "\<forall>I\<in>set is1. \<not> isDirectCallTo F (FunctionTarget cfg) I"
    and "isDirectCallTo F (FunctionTarget cfg) II"
    and "instKind II = ApplyInst c args ty"
  shows "run cfg st fn = foundTarget cfg st F (length bs1) (length is1) II (c, args, ty)"
proof -
  have "run cfg st fn = run_blocks cfg st F 0 (bs1 @ (is1 @ II # is2) # bs2)"
    using assms(1-5) by (auto simp: run_def)
  also have "\<dots> = foundTarget cfg st F (0 + length bs1) (length is1) II (c, args, ty)"
    by (rule run_blocks_first[OF assms(6-9)])
  finally show ?thesis by simp
qed

lemma run_after_error: "CausedError st \<Longrightarrow> run cfg st fn = Returned st"
  by (simp add: run_def)

lemma runAll_after_error:
  "CausedError st \<Longrightarrow> runAll cfg st fns = replicate (length fns) (Returned st)"
  by (induction fns) (simp_all add: run_after_error)

lemma runAll_empty_target:
  "FunctionTarget cfg = [] \<Longrightarrow> runAll cfg st fns = replicate (length fns) (Returned st)"
  by (induction fns) (simp_all add: run_def)

subsection \<open>The stub factory\<close>

lemma freshId_no_blocks: "fnBlocks F = [] \<Longrightarrow> freshId F = 0"
  by (simp add: freshId_def allInsts_def)

lemma updateFunction_append_new:
  "lookupFunction M n = None \<Longrightarrow> fnName F0 = n \<Longrightarrow>
   updateFunction (M @ [F0]) n G = M @ [G]"
  using lookupFunction_update_absent[of M n G] by (simp add: updateFunction_def)

lemma lookupFunction_single: "fnName F = n \<Longrightarrow> lookupFunction [F] n = Some F"
  by (simp add: lookupFunction_def)

lemma getRuntimeCrasherFunction_defined:
  assumes "\<not> (AssertsEnabled cfg \<and> TargetFailureKind cfg \<noteq> RuntimeCrasher)"
    and "lookupFunction M RuntimeCrasherFunctionName = Some S" and "isDefinition S"
  shows "getRuntimeCrasherFunction cfg M = Inr (S, M)"
  using assms by (auto simp: getRuntimeCrasherFunction_def getOrCreateSharedFunction_def)

lemma getRuntimeCrasherFunction_declared:
  assumes "\<not> (AssertsEnabled cfg \<and> TargetFailureKind cfg \<noteq> RuntimeCrasher)"
    and "lookupFunction M RuntimeCrasherFunctionName = Some S" and "\<not> isDefinition S"
  shows "getRuntimeCrasherFunction cfg M
           = Inr (S\<lparr> fnBlocks := [[Inst 0 BuiltinTrapInst, Inst 1 UnreachableInst]] \<rparr>,
                  updateFunction M RuntimeCrasherFunctionName
                    (S\<lparr> fnBlocks := [[Inst 0 BuiltinTrapInst, Inst 1 UnreachableInst]] \<rparr>))"
  using assms
  by (auto simp: getRuntimeCrasherFunction_def getOrCreateSharedFunction_def isDefinition_def
        freshId_no_blocks Let_def)

lemma getRuntimeCrasherFunction_absent:
  assumes "\<not> (AssertsEnabled cfg \<and> TargetFailureKind cfg \<noteq> RuntimeCrasher)"
    and "lookupFunction M RuntimeCrasherFunctionName = None"
  shows "getRuntimeCrasherFunction cfg M
           = Inr (\<lparr> fnName = RuntimeCrasherFunctionName, fnLoweredType = crasherFuncType,
                    fnLinkage = Shared, fnBare = True, fnTransparent = False,
                    fnFragile = True, fnThunk = False,
                    fnBlocks = [[Inst 0 BuiltinTrapInst, Inst 1 UnreachableInst]] \<rparr>,
                  M @ [\<lparr> fnName = RuntimeCrasherFunctionName, fnLoweredType = crasherFuncType,
                    fnLinkage = Shared, fnBare = True, fnTransparent = False,
                    fnFragile = True, fnThunk = False,
                    fnBlocks = [[Inst 0 BuiltinTrapInst, Inst 1 UnreachableInst]] \<rparr>])"
  using assms
  by (auto simp: getRuntimeCrasherFunction_def getOrCreateSharedFunction_def isDefinition_def
        freshId_no_blocks Let_def updateFunction_append_new)

text \<open>What every successful call of the factory leaves behind.\<close>

lemma getRuntimeCrasherFunction_result:
  assumes "getRuntimeCrasherFunction cfg M = Inr (S, M1)"
  shows "lookupFunction M1 RuntimeCrasherFunctionName = Some S"
    and "isDefinition S" and "fnName S = RuntimeCrasherFunctionName"
    and "\<not> (AssertsEnabled cfg \<and> TargetFailureKind cfg \<noteq> RuntimeCrasher)"
proof -
  show na: "\<not> (AssertsEnabled cfg \<and> TargetFailureKind cfg \<noteq> RuntimeCrasher)"
    using assms by (auto simp: getRuntimeCrasherFunction_def split: if_splits)
  have "lookupFunction M1 RuntimeCrasherFunctionName = Some S \<and> isDefinition S
        \<and> fnName S = RuntimeCrasherFunctionName"
  proof (cases "lookupFunction M RuntimeCrasherFunctionName")
    case None
    from getRuntimeCrasherFunction_absent[OF na None] assms
    show ?thesis using None
      by (auto simp: lookupFunction_append isDefinition_def lookupFunction_single)
  next
    case (Some S0)
    note nm = lookupFunction_name[OF Some]
    show ?thesis
    proof (cases "isDefinition S0")
      case True
      from getRuntimeCrasherFunction_defined[OF na Some True] assms
      show ?thesis using Some True nm by simp
    next
      case False
      from getRuntimeCrasherFunction_declared[OF na Some False] assms
      show ?thesis using nm
        by (auto simp: isDefinition_def lookupFunction_update_same[OF Some])
    qed
  qed
  then show "lookupFunction M1 RuntimeCrasherFunctionName = Some S"
    and "isDefinition S" and "fnName S = RuntimeCrasherFunctionName" by simp_all
qed

lemma getRuntimeCrasherFunction_returns:
  assumes "\<not> (AssertsEnabled cfg \<and> TargetFailureKind cfg \<noteq> RuntimeCrasher)"
  shows "\<exists>S M1. getRuntimeCrasherFunction cfg M = Inr (S, M1)"
  using assms
  by (auto simp: getRuntimeCrasherFunction_def getOrCreateSharedFunction_def Let_def
           split: option.splits)

text \<open>The factory leaves every function that has a body as it is, and every other name.\<close>

lemma getRuntimeCrasherFunction_keeps:
  assumes "getRuntimeCrasherFunction cfg M = Inr (S, M1)"
    and "lookupFunction M n = Some F"
    and "isDefinition F \<or> n \<noteq> RuntimeCrasherFunctionName"
  shows "lookupFunction M1 n = Some F"
proof -
  note na = getRuntimeCrasherFunction_result(4)[OF assms(1)]
  show ?thesis
  proof (cases "lookupFunction M RuntimeCrasherFunctionName")
    case None
    from getRuntimeCrasherFunction_absent[OF na None] assms(1,2)
    show ?thesis by (auto simp: lookupFunction_append)
  next
    case (Some S0)
    show ?thesis
    proof (cases "isDefinition S0")
      case True
      from getRuntimeCrasherFunction_defined[OF na Some True] assms(1,2)
      show ?thesis by simp
    next
      case False
      have "n \<noteq> RuntimeCrasherFunctionName" using assms(2,3) Some False by auto
      moreover from getRuntimeCrasherFunction_declared[OF na Some False] assms(1)
      have "M1 = updateFunction M RuntimeCrasherFunctionName S" 
        and "fnName S = RuntimeCrasherFunctionName"
        using lookupFunction_name[OF Some] by auto
      ultimately show ?thesis using assms(2) by (simp add: lookupFunction_update_other)
    qed
  qed
qed

subsection \<open>Replaced uses\<close>

lemma instId_replaceUsesInInst [simp]: "instId (replaceUsesInInst a u J) = instId J"
  by (simp add: replaceUsesInInst_def)

lemma map_instId_replaceUses: "map instId (map (replaceUsesInInst a u) xs) = map instId xs"
  by simp

lemma concat_replaceAllUsesWith:
  "concat (replaceAllUsesWith a u bs) = map (replaceUsesInInst a u) (concat bs)"
  by (simp add: replaceAllUsesWith_def map_concat)

lemma operands_replaceUsesInInst:
  "operands (instKind (replaceUsesInInst a u J))
     = map (\<lambda>v. if v = InstValue a then u else v) (operands (instKind J))"
proof -
  have "substValue a u = (\<lambda>v. if v = InstValue a then u else v)"
    by (rule ext) (simp add: substValue_def)
  then show ?thesis
    by (simp add: replaceUsesInInst_def operands_replaceUsesInKind)
qed

lemma no_use_after_replace:
  "u \<noteq> InstValue a \<Longrightarrow> InstValue a \<notin> set (operands (instKind (replaceUsesInInst a u J)))"
  by (auto simp: operands_replaceUsesInInst)

lemma functionRef_replaceUses:
  "instKind (replaceUsesInInst a u J) = FunctionRefInst nm \<longleftrightarrow> instKind J = FunctionRefInst nm"
  by (cases "instKind J") (simp_all add: replaceUsesInInst_def)

lemma find_id_map_replaceUses:
  "find (\<lambda>J. instId J = c) (map (replaceUsesInInst a u) xs)
     = map_option (replaceUsesInInst a u) (find (\<lambda>J. instId J = c) xs)"
  by (induction xs) simp_all

lemma find_id_skip:
  "instId II \<noteq> c \<Longrightarrow>
   find (\<lambda>J. instId J = c) (pre @ II # post) = find (\<lambda>J. instId J = c) (pre @ post)"
  by (simp add: find_append_case split: option.splits)

text \<open>
  After the uses of \<open>II\<close> are replaced and \<open>II\<close> is erased, an instruction is a direct
  call of the target only if it was one before.
\<close>

lemma isDirectCallTo_after_erase:
  assumes "allInsts F = pre @ II # post"
    and "allInsts F' = map (replaceUsesInInst (instId II) (UndefValue ty)) (pre @ post)"
    and "isDirectCallTo F' tgt (replaceUsesInInst (instId II) (UndefValue ty) J)"
  shows "isDirectCallTo F tgt J"
proof -
  let ?r = "replaceUsesInInst (instId II) (UndefValue ty)"
  from isDirectCallTo_apply[OF assms(3)] obtain c' args' ty' where
    k': "instKind (?r J) = ApplyInst (InstValue c') args' ty'" by blast
  then obtain cJ argsJ where kJ: "instKind J = ApplyInst cJ argsJ ty'"
    and cJ': "substValue (instId II) (UndefValue ty) cJ = InstValue c'"
    by (cases "instKind J") (auto simp: replaceUsesInInst_def)
  from cJ' have cJ: "cJ = InstValue c'" and ne: "instId II \<noteq> c'"
    by (auto simp: substValue_def split: if_splits)
  from assms(3) k' obtain K' where
    K': "find (\<lambda>J. instId J = c') (allInsts F') = Some K'" "instKind K' = FunctionRefInst tgt"
    by (auto simp: isDirectCallTo_def split: option.splits)
  from K'(1) obtain K where
    K: "find (\<lambda>J. instId J = c') (pre @ post) = Some K" "K' = ?r K"
    unfolding assms(2) find_id_map_replaceUses by auto
  have "find (\<lambda>J. instId J = c') (allInsts F) = Some K"
    unfolding assms(1) using find_id_skip[OF ne] K(1) by simp
  moreover have "instKind K = FunctionRefInst tgt"
    using K'(2) K(2) functionRef_replaceUses by simp
  ultimately show ?thesis using kJ cJ by (simp add: isDirectCallTo_def)
qed

subsection \<open>The two rewrites at the first call site\<close>

lemma run_miscompile_site:
  assumes "TargetFailureKind cfg = RuntimeMiscompile"
    and "FunctionTarget cfg \<noteq> []" and "\<not> CausedError st"
    and "lookupFunction (passModule st) fn = Some F"
    and "fnBlocks F = bs1 @ (is1 @ II # is2) # bs2"
    and "\<forall>I\<in>set (concat bs1). \<not> isDirectCallTo F (FunctionTarget cfg) I"
    and "\<forall>I\<in>set is1. \<not> isDirectCallTo F (FunctionTarget cfg) I"
    and "isDirectCallTo F (FunctionTarget cfg) II"
    and "instKind II = ApplyInst c args ty"
  shows "run cfg st fn
           = Returned \<lparr> passModule = updateFunction (passModule st) fn
                 (F\<lparr> fnBlocks := replaceAllUsesWith (instId II) (UndefValue ty) bs1
                        @ (map (replaceUsesInInst (instId II) (UndefValue ty)) is1
                             @ map (replaceUsesInInst (instId II) (UndefValue ty)) is2)
                        # replaceAllUsesWith (instId II) (UndefValue ty) bs2 \<rparr>),
               CausedError = True \<rparr>"
proof -
  have "\<not> (AssertsEnabled cfg \<and> TargetFailureKind cfg = NoneKind)" using assms(1) by simp
  from run_first_match[OF assms(2,3) this assms(4-9)]
  show ?thesis
    using foundTarget_miscompile[OF assms(1,5)] lookupFunction_name[OF assms(4)] by simp
qed

lemma run_crasher_site:
  assumes "TargetFailureKind cfg = RuntimeCrasher"
    and "FunctionTarget cfg \<noteq> []" and "\<not> CausedError st"
    and "lookupFunction (passModule st) fn = Some F"
    and "fnBlocks F = bs1 @ (is1 @ II # is2) # bs2"
    and "\<forall>I\<in>set (concat bs1). \<not> isDirectCallTo F (FunctionTarget cfg) I"
    and "\<forall>I\<in>set is1. \<not> isDirectCallTo F (FunctionTarget cfg) I"
    and "isDirectCallTo F (FunctionTarget cfg) II"
    and "instKind II = ApplyInst c args ty"
    and "getRuntimeCrasherFunction cfg (passModule st) = Inr (S, M1)"
  shows "run cfg st fn
           = Returned \<lparr> passModule = updateFunction M1 fn
                 (F\<lparr> fnBlocks := replaceAllUsesWith (instId II) (UndefValue ty) bs1
                        @ (map (replaceUsesInInst (instId II) (UndefValue ty)) is1
                             @ [Inst (freshId F) (FunctionRefInst RuntimeCrasherFunctionName),
                                Inst (Suc (freshId F))
                                  (ApplyInst (InstValue (freshId F)) [] EmptyTupleType)]
                             @ map (replaceUsesInInst (instId II) (UndefValue ty)) is2)
                        # replaceAllUsesWith (instId II) (UndefValue ty) bs2 \<rparr>),
               CausedError = True \<rparr>"
proof -
  have "\<not> (AssertsEnabled cfg \<and> TargetFailureKind cfg = NoneKind)" using assms(1) by simp
  from run_first_match[OF assms(2,3) this assms(4-9)]
  show ?thesis
    using foundTarget_crasher[OF assms(1,5,10)] lookupFunction_name[OF assms(4)]
      getRuntimeCrasherFunction_result(3)[OF assms(10)] by simp
qed

subsection \<open>Direct and indirect callees\<close>

lemma isDirectCallTo_functionRef:
  "isDirectCallTo F tgt I \<Longrightarrow>
   \<exists>c args ty J. instKind I = ApplyInst (InstValue c) args ty
      \<and> find (\<lambda>J. instId J = c) (allInsts F) = Some J \<and> instKind J = FunctionRefInst tgt"
  by (auto simp: isDirectCallTo_def split: inst_kind.splits sil_value.splits option.splits)

lemma indirect_not_matched:
  "instKind I = ApplyInst callee args ty \<Longrightarrow> \<not> isFunctionRefValue F callee \<Longrightarrow>
   \<not> isDirectCallTo F tgt I"
  by (auto simp: isDirectCallTo_def isFunctionRefValue_def
           split: sil_value.splits option.splits inst_kind.splits)

subsection \<open>What the stub factory leaves alone\<close>

lemma lookupFunction_append_other:
  "fnName G \<noteq> n \<Longrightarrow> lookupFunction (M @ [G]) n = lookupFunction M n"
  by (simp add: lookupFunction_def find_append_case split: option.splits)

lemma getRuntimeCrasherFunction_other_names:
  assumes "getRuntimeCrasherFunction cfg M = Inr (S, M1)"
    and "n \<noteq> RuntimeCrasherFunctionName"
  shows "lookupFunction M1 n = lookupFunction M n"
proof -
  note na = getRuntimeCrasherFunction_result(4)[OF assms(1)]
  show ?thesis
  proof (cases "lookupFunction M RuntimeCrasherFunctionName")
    case None
    from getRuntimeCrasherFunction_absent[OF na None] assms(1)
    have "M1 = M @ [S]" and "fnName S = RuntimeCrasherFunctionName" by auto
    then show ?thesis using assms(2) by (simp add: lookupFunction_append_other)
  next
    case (Some S0)
    show ?thesis
    proof (cases "isDefinition S0")
      case True
      from getRuntimeCrasherFunction_defined[OF na Some True] assms(1)
      show ?thesis by simp
    next
      case False
      from getRuntimeCrasherFunction_declared[OF na Some False] assms(1)
      have "M1 = updateFunction M RuntimeCrasherFunctionName S"
        and "fnName S = RuntimeCrasherFunctionName"
        using lookupFunction_name[OF Some] by auto
      then show ?thesis using assms(2) by (simp add: lookupFunction_update_other)
    qed
  qed
qed

subsection \<open>The state after a rewrite\<close>

lemma isDefinition_at_site: "fnBlocks F = bs1 @ (is1 @ II # is2) # bs2 \<Longrightarrow> isDefinition F"
  by (simp add: isDefinition_def)

text \<open>The state a runtime-crasher injection returns, and where its functions are.\<close>

lemma run_crasher_result:
  assumes "TargetFailureKind cfg = RuntimeCrasher"
    and "FunctionTarget cfg \<noteq> []" and "\<not> CausedError st"
    and "lookupFunction (passModule st) fn = Some F"
    and "fnBlocks F = bs1 @ (is1 @ II # is2) # bs2"
    and "\<forall>I\<in>set (concat bs1). \<not> isDirectCallTo F (FunctionTarget cfg) I"
    and "\<forall>I\<in>set is1. \<not> isDirectCallTo F (FunctionTarget cfg) I"
    and "isDirectCallTo F (FunctionTarget cfg) II"
    and "instKind II = ApplyInst c args ty"
    and "F' = F\<lparr> fnBlocks := replaceAllUsesWith (instId II) (UndefValue ty) bs1
                        @ (map (replaceUsesInInst (instId II) (UndefValue ty)) is1
                             @ [Inst (freshId F) (FunctionRefInst RuntimeCrasherFunctionName),
                                Inst (Suc (freshId F))
                                  (ApplyInst (InstValue (freshId F)) [] EmptyTupleType)]
                             @ map (replaceUsesInInst (instId II) (UndefValue ty)) is2)
                        # replaceAllUsesWith (instId II) (UndefValue ty) bs2 \<rparr>"
  shows "\<exists>S M1. getRuntimeCrasherFunction cfg (passModule st) = Inr (S, M1)
           \<and> run cfg st fn = Returned \<lparr> passModule = updateFunction M1 fn F', CausedError = True \<rparr>
           \<and> lookupFunction (updateFunction M1 fn F') fn = Some F'
           \<and> (fn \<noteq> RuntimeCrasherFunctionName
                \<longrightarrow> lookupFunction (updateFunction M1 fn F') RuntimeCrasherFunctionName = Some S)"
proof -
  have na: "\<not> (AssertsEnabled cfg \<and> TargetFailureKind cfg \<noteq> RuntimeCrasher)"
    using assms(1) by simp
  from getRuntimeCrasherFunction_returns[OF na] obtain S M1 where
    g: "getRuntimeCrasherFunction cfg (passModule st) = Inr (S, M1)" by blast
  have nm: "fnName F' = fn" using lookupFunction_name[OF assms(4)] assms(10) by simp
  have run: "run cfg st fn = Returned \<lparr> passModule = updateFunction M1 fn F', CausedError = True \<rparr>"
    unfolding assms(10) by (rule run_crasher_site[OF assms(1-9) g])
  have "lookupFunction M1 fn = Some F"
    using getRuntimeCrasherFunction_keeps[OF g assms(4)] isDefinition_at_site[OF assms(5)]
    by simp
  from lookupFunction_update_same[OF this nm]
  have own: "lookupFunction (updateFunction M1 fn F') fn = Some F'" .
  have stub: "lookupFunction (updateFunction M1 fn F') RuntimeCrasherFunctionName = Some S"
    if "fn \<noteq> RuntimeCrasherFunctionName"
    using that nm getRuntimeCrasherFunction_result(1)[OF g]
    by (simp add: lookupFunction_update_other)
  from g run own stub show ?thesis by blast
qed


text \<open>Both rewrites at once: the returned state, with the instructions put in.\<close>

lemma run_injects:
  assumes "TargetFailureKind cfg = RuntimeMiscompile \<or> TargetFailureKind cfg = RuntimeCrasher"
    and "FunctionTarget cfg \<noteq> []" and "\<not> CausedError st"
    and "lookupFunction (passModule st) fn = Some F"
    and "fnBlocks F = bs1 @ (is1 @ II # is2) # bs2"
    and "\<forall>I\<in>set (concat bs1). \<not> isDirectCallTo F (FunctionTarget cfg) I"
    and "\<forall>I\<in>set is1. \<not> isDirectCallTo F (FunctionTarget cfg) I"
    and "isDirectCallTo F (FunctionTarget cfg) II"
    and "instKind II = ApplyInst c args ty"
  shows "\<exists>M1 new.
           run cfg st fn
             = Returned \<lparr> passModule = updateFunction M1 fn
                 (F\<lparr> fnBlocks := replaceAllUsesWith (instId II) (UndefValue ty) bs1
                        @ (map (replaceUsesInInst (instId II) (UndefValue ty)) is1 @ new
                             @ map (replaceUsesInInst (instId II) (UndefValue ty)) is2)
                        # replaceAllUsesWith (instId II) (UndefValue ty) bs2 \<rparr>),
               CausedError = True \<rparr>
         \<and> run cfg st fn = foundTarget cfg st F (length bs1) (length is1) II (c, args, ty)
         \<and> lookupFunction M1 fn = Some F
         \<and> (\<forall>g. g \<noteq> RuntimeCrasherFunctionName
                \<longrightarrow> lookupFunction M1 g = lookupFunction (passModule st) g)
         \<and> (\<forall>N\<in>set new. \<forall>I\<in>set (allInsts F). instId I < instId N)
         \<and> map (replaceUsesInInst (instId II) (UndefValue ty)) new = new
         \<and> new = (if TargetFailureKind cfg = RuntimeMiscompile then []
                   else [Inst (freshId F) (FunctionRefInst RuntimeCrasherFunctionName),
                         Inst (Suc (freshId F))
                           (ApplyInst (InstValue (freshId F)) [] EmptyTupleType)])"
proof -
  have na: "\<not> (AssertsEnabled cfg \<and> TargetFailureKind cfg = NoneKind)" using assms(1) by auto
  note fm = run_first_match[OF assms(2,3) na assms(4-9)]
  from assms(1) show ?thesis
  proof
    assume k: "TargetFailureKind cfg = RuntimeMiscompile"
    from run_miscompile_site[OF k assms(2-9)] fm assms(4) k
    show ?thesis
      apply (intro exI[of _ "passModule st"] exI[of _ "[]"])
      by simp
  next
    assume k: "TargetFailureKind cfg = RuntimeCrasher"
    have na': "\<not> (AssertsEnabled cfg \<and> TargetFailureKind cfg \<noteq> RuntimeCrasher)"
      using k by simp
    from getRuntimeCrasherFunction_returns[OF na'] obtain S M1 where
      g: "getRuntimeCrasherFunction cfg (passModule st) = Inr (S, M1)" by blast
    let ?new = "[Inst (freshId F) (FunctionRefInst RuntimeCrasherFunctionName),
                 Inst (Suc (freshId F)) (ApplyInst (InstValue (freshId F)) [] EmptyTupleType)]"
    have keep: "lookupFunction M1 fn = Some F"
      using getRuntimeCrasherFunction_keeps[OF g assms(4)] isDefinition_at_site[OF assms(5)]
      by simp
    have other: "\<forall>g. g \<noteq> RuntimeCrasherFunctionName
                   \<longrightarrow> lookupFunction M1 g = lookupFunction (passModule st) g"
      using getRuntimeCrasherFunction_other_names[OF g] by blast
    have fresh: "\<forall>N\<in>set ?new. \<forall>I\<in>set (allInsts F). instId I < instId N"
      using freshId_fresh[of _ F] by (auto simp: less_Suc_eq)
    have "II \<in> set (allInsts F)" by (simp add: allInsts_def assms(5))
    from freshId_fresh[OF this]
    have same: "map (replaceUsesInInst (instId II) (UndefValue ty)) ?new = ?new"
      by (simp add: replaceUsesInInst_def substValue_def)
    have "?new = (if TargetFailureKind cfg = RuntimeMiscompile then [] else ?new)"
      using k by simp
    with run_crasher_site[OF k assms(2-9) g] fm keep other fresh same
    show ?thesis
      apply (intro exI[of _ M1] exI[of _ ?new])
      by (intro conjI) assumption+
  qed
qed

subsection \<open>A run over several functions\<close>

lemma run_not_hasTargetCall:
  assumes "\<not> (AssertsEnabled cfg \<and> TargetFailureKind cfg = NoneKind)"
    and "\<not> hasTargetCall (passModule st) (FunctionTarget cfg) fn"
  shows "run cfg st fn = Returned st"
proof (cases "lookupFunction (passModule st) fn")
  case None
  then show ?thesis using assms(1) by (auto simp: run_def)
next
  case (Some F)
  show ?thesis
  proof (cases "FunctionTarget cfg = []")
    case True
    then show ?thesis by (simp add: run_def)
  next
    case False
    with assms(2) Some have "\<forall>I\<in>set (allInsts F). \<not> isDirectCallTo F (FunctionTarget cfg) I"
      by (simp add: hasTargetCall_def findTargetCall_def find_None_iff)
    from run_no_match[OF assms(1) Some this] show ?thesis .
  qed
qed

lemma runAll_no_match_prefix:
  assumes "\<not> (AssertsEnabled cfg \<and> TargetFailureKind cfg = NoneKind)"
    and "\<forall>g\<in>set pre. \<not> hasTargetCall (passModule st) (FunctionTarget cfg) g"
  shows "runAll cfg st (pre @ rest) = replicate (length pre) (Returned st) @ runAll cfg st rest"
  using assms(2)
proof (induction pre)
  case Nil
  show ?case by simp
next
  case (Cons g pre)
  then have "run cfg st g = Returned st"
    using run_not_hasTargetCall[OF assms(1)] by simp
  with Cons show ?case by simp
qed

lemma three_split:
  "[a, b, c] = pre @ x # post \<Longrightarrow>
   pre = [] \<and> x = a \<and> post = [b, c] \<or> pre = [a] \<and> x = b \<and> post = [c]
     \<or> pre = [a, b] \<and> x = c \<and> post = []"
  by (auto simp: Cons_eq_append_conv)

subsection \<open>The sample module\<close>

lemma exCaller_lookup: "lookupFunction (passModule exState) ''caller'' = Some exCaller"
  by (simp add: exState_def exModule_def lookupFunction_def exIdle_def exCaller_def
        exOther_def plainFunction_def)

lemma exCaller_findTargetCall:
  "findTargetCall exCaller ''target''
     = Some (Inst 3 (ApplyInst (InstValue 0) [InstValue 1] (NamedType ''Int'')))"
  by (simp add: findTargetCall_def exCaller_def plainFunction_def allInsts_def
        exCallerEntry_def exCallerBody_def isDirectCallTo_def)

lemma exConfig_simps:
  "FunctionTarget (exConfig k a) = ''target''"
  "TargetFailureKind (exConfig k a) = k"
  "AssertsEnabled (exConfig k a) = a"
  by (simp_all add: exConfig_def)

lemma exState_simps: "passModule exState = exModule" "\<not> CausedError exState"
  by (simp_all add: exState_def)

lemma exCaller_blocks:
  "fnBlocks exCaller
     = [exCallerEntry]
         @ ([] @ Inst 3 (ApplyInst (InstValue 0) [InstValue 1] (NamedType ''Int''))
              # [Inst 4 (OtherInst ''return'' [InstValue 3])])
         # []"
  by (simp add: exCaller_def plainFunction_def exCallerBody_def)

lemma exCaller_direct_call:
  "isDirectCallTo exCaller ''target''
     (Inst 3 (ApplyInst (InstValue 0) [InstValue 1] (NamedType ''Int'')))"
  by (simp add: isDirectCallTo_def allInsts_def exCaller_def plainFunction_def
        exCallerEntry_def exCallerBody_def)

lemma exCaller_no_other_call:
  "\<forall>I\<in>set (concat [exCallerEntry]) \<union> set [] \<union> set [Inst 4 (OtherInst ''return'' [InstValue 3])]
        \<union> set (concat []).
     \<not> isDirectCallTo exCaller ''target'' I"
  by (simp add: isDirectCallTo_def exCallerEntry_def)

lemma exCaller_freshId: "freshId exCaller = 5"
  by (simp add: freshId_def allInsts_def exCaller_def plainFunction_def exCallerEntry_def
        exCallerBody_def)

lemma exStateWithStub_simps:
  "passModule exStateWithStub = exUserStub # exModule" "\<not> CausedError exStateWithStub"
  by (simp_all add: exStateWithStub_def)

lemma exNames:
  "fnName exUserStub = RuntimeCrasherFunctionName" "fnName exIdle = ''idle''"
  "fnName exCaller = ''caller''" "fnName exOther = ''other''"
  "fnName exCallerCrashed = ''caller''"
  by (simp_all add: exUserStub_def exIdle_def exCaller_def exOther_def exCallerCrashed_def
        plainFunction_def RuntimeCrasherFunctionName_def)

lemma exCaller_rewritten:
  "exCaller\<lparr> fnBlocks :=
       replaceAllUsesWith 3 (UndefValue (NamedType ''Int'')) [exCallerEntry]
         @ (map (replaceUsesInInst 3 (UndefValue (NamedType ''Int''))) []
              @ [Inst 5 (FunctionRefInst RuntimeCrasherFunctionName),
                 Inst 6 (ApplyInst (InstValue 5) [] EmptyTupleType)]
              @ map (replaceUsesInInst 3 (UndefValue (NamedType ''Int'')))
                  [Inst 4 (OtherInst ''return'' [InstValue 3])])
         # replaceAllUsesWith 3 (UndefValue (NamedType ''Int'')) [] \<rparr>
     = exCallerCrashed"
  by (simp add: exCaller_def exCallerCrashed_def plainFunction_def replaceAllUsesWith_def
        replaceUsesInInst_def substValue_def exCallerEntry_def RuntimeCrasherFunctionName_def)

lemma exWithStub_lookups:
  "lookupFunction (exUserStub # exModule) RuntimeCrasherFunctionName = Some exUserStub"
  "lookupFunction (exUserStub # exModule) ''caller'' = Some exCaller"
  "updateFunction (exUserStub # exModule) ''caller'' G = [exUserStub, exIdle, G, exOther]"
  "lookupFunction [exUserStub, exIdle, exCallerCrashed, exOther] RuntimeCrasherFunctionName
     = Some exUserStub"
  by (simp_all add: lookupFunction_def updateFunction_def exModule_def exNames
        RuntimeCrasherFunctionName_def)

lemma exUserStub_body:
  "isDefinition exUserStub"
  "map (map instKind) (fnBlocks exUserStub) = [[OtherInst ''return'' []]]"
  by (simp_all add: exUserStub_def plainFunction_def isDefinition_def)

lemma exModule_no_stub: "lookupFunction exModule RuntimeCrasherFunctionName = None"
  by (simp add: lookupFunction_def exModule_def exNames RuntimeCrasherFunctionName_def)

lemma exIdle_lookup: "lookupFunction (passModule exState) ''idle'' = Some exIdle"
  by (simp add: exState_simps exModule_def lookupFunction_def exNames)

lemma exIdle_findTargetCall: "findTargetCall exIdle ''target'' = None"
  by (simp add: findTargetCall_def exIdle_def plainFunction_def allInsts_def isDirectCallTo_def)


lemma exState_miscompile_run:
  "run (exConfig RuntimeMiscompile True) exState ''caller'' = Returned exStateMiscompiled"
  by (simp add: run_def exConfig_def exState_def exModule_def lookupFunction_def exIdle_def
    exCaller_def exOther_def exCallerMiscompiled_def exStateMiscompiled_def plainFunction_def
    exCallerEntry_def exCallerBody_def dyn_cast_ApplyInst_def dyn_cast_FunctionRefInst_def
    allInsts_def foundTarget_def Let_def updateFunction_def eraseFromParent_def
    replaceAllUsesWith_def replaceUsesInInst_def substValue_def)

lemma exState_hasTargetCall:
  "\<not> hasTargetCall (passModule exState) ''target'' ''idle''"
  "hasTargetCall (passModule exState) ''target'' ''caller''"
  using exIdle_lookup exCaller_lookup
  by (simp_all add: hasTargetCall_def exIdle_findTargetCall exCaller_findTargetCall)

subsection \<open>The actions of an invocation\<close>
























subsection \<open>What a rewrite leaves in place\<close>


section \<open>The claims\<close>

text \<open>
  C1, as amended. One pass object is run over a list of functions of which at least one
  holds a direct call of the target; the target name is not empty, the failure kind is not
  none, nothing is injected yet. Then the invocations on the functions before the first
  such function return the state unchanged, and the invocation on that function runs the
  loop body once, for the first direct call of the target in block and instruction order.
  On the two rewriting kinds that invocation returns a state with the flag set, and every
  later invocation, in this run or after it, returns that same state: one injection, the
  flag set once and never cleared. On the optimizer-crasher kind, in a build with
  assertions, the process terminates at that call, with the state as it was on entry and
  the flag clear, and nothing runs after.
\<close>

theorem exactly_one_injection_per_run:
  assumes "TargetFailureKind cfg \<noteq> NoneKind"
    and "FunctionTarget cfg \<noteq> []" and "\<not> CausedError st0"
    and "\<exists>fn\<in>set fns. hasTargetCall (passModule st0) (FunctionTarget cfg) fn"
  shows "\<exists>pre fn post F II bs1 is1 is2 bs2 c args ty.
           fns = pre @ fn # post
         \<and> (\<forall>g\<in>set pre. \<not> hasTargetCall (passModule st0) (FunctionTarget cfg) g)
         \<and> lookupFunction (passModule st0) fn = Some F
         \<and> findTargetCall F (FunctionTarget cfg) = Some II
         \<and> fnBlocks F = bs1 @ (is1 @ II # is2) # bs2
         \<and> (\<forall>I\<in>set (concat bs1) \<union> set is1. \<not> isDirectCallTo F (FunctionTarget cfg) I)
         \<and> instKind II = ApplyInst c args ty
         \<and> run cfg st0 fn = foundTarget cfg st0 F (length bs1) (length is1) II (c, args, ty)
         \<and> (TargetFailureKind cfg = OptimizerCrasher \<and> AssertsEnabled cfg
              \<longrightarrow> runAll cfg st0 fns
                    = replicate (length pre) (Returned st0)
                        @ [Aborted (UnreachableExecuted ''Found the target!'') st0])
         \<and> (TargetFailureKind cfg = RuntimeMiscompile \<or> TargetFailureKind cfg = RuntimeCrasher
              \<longrightarrow> (\<exists>st1. run cfg st0 fn = Returned st1 \<and> CausedError st1
                     \<and> runAll cfg st0 fns
                         = replicate (length pre) (Returned st0)
                             @ replicate (Suc (length post)) (Returned st1)
                     \<and> (\<forall>g. run cfg st1 g = Returned st1)))"
proof -
  let ?tgt = "FunctionTarget cfg"
  have na: "\<not> (AssertsEnabled cfg \<and> TargetFailureKind cfg = NoneKind)" using assms(1) by auto
  from split_list_first_prop[OF assms(4)] obtain pre fn post where
    fns: "fns = pre @ fn # post" and has: "hasTargetCall (passModule st0) ?tgt fn"
    and pre: "\<forall>g\<in>set pre. \<not> hasTargetCall (passModule st0) ?tgt g"
    by blast
  from has obtain F II where F: "lookupFunction (passModule st0) fn = Some F"
    and II: "findTargetCall F ?tgt = Some II"
    by (auto simp: hasTargetCall_def split: option.splits)
  from findTargetCall_decomp[OF II] obtain bs1 is1 is2 bs2 c args ty where
    d: "fnBlocks F = bs1 @ (is1 @ II # is2) # bs2"
       "\<forall>I\<in>set (concat bs1). \<not> isDirectCallTo F ?tgt I"
       "\<forall>I\<in>set is1. \<not> isDirectCallTo F ?tgt I"
       "isDirectCallTo F ?tgt II"
       "instKind II = ApplyInst (InstValue c) args ty"
    by blast
  note ft = run_first_match[OF assms(2,3) na F d]
  have prefix: "runAll cfg st0 fns
          = replicate (length pre) (Returned st0) @ runAll cfg st0 (fn # post)"
    unfolding fns by (rule runAll_no_match_prefix[OF na pre])
  have abort: "runAll cfg st0 fns
                 = replicate (length pre) (Returned st0)
                     @ [Aborted (UnreachableExecuted ''Found the target!'') st0]"
    if k: "TargetFailureKind cfg = OptimizerCrasher \<and> AssertsEnabled cfg"
  proof -
    have "run cfg st0 fn = Aborted (UnreachableExecuted ''Found the target!'') st0"
      unfolding ft using k by (simp add: foundTarget_def)
    then show ?thesis unfolding prefix by simp
  qed
  have rewrite: "\<exists>st1. run cfg st0 fn = Returned st1 \<and> CausedError st1
                     \<and> runAll cfg st0 fns
                         = replicate (length pre) (Returned st0)
                             @ replicate (Suc (length post)) (Returned st1)
                     \<and> (\<forall>g. run cfg st1 g = Returned st1)"
    if k': "TargetFailureKind cfg = RuntimeMiscompile \<or> TargetFailureKind cfg = RuntimeCrasher"
  proof -
    from run_injects[OF k' assms(2,3) F d] obtain st1 where
      run: "run cfg st0 fn = Returned st1" and ce: "CausedError st1"
      by (metis pass_state.select_convs(2))
    have later: "\<forall>g. run cfg st1 g = Returned st1"
      using run_after_error[OF ce] by blast
    have "runAll cfg st0 (fn # post) = Returned st1 # runAll cfg st1 post"
      using run by simp
    also have "runAll cfg st1 post = replicate (length post) (Returned st1)"
      by (rule runAll_after_error[OF ce])
    finally have "runAll cfg st0 fns
        = replicate (length pre) (Returned st0) @ replicate (Suc (length post)) (Returned st1)"
      unfolding prefix by simp
    with run ce later show ?thesis by blast
  qed
  have nb: "\<forall>I\<in>set (concat bs1) \<union> set is1. \<not> isDirectCallTo F ?tgt I" using d(2,3) by blast
  show ?thesis
    apply (rule exI[of _ pre], rule exI[of _ fn], rule exI[of _ post], rule exI[of _ F])
    apply (rule exI[of _ II], rule exI[of _ bs1], rule exI[of _ is1], rule exI[of _ is2])
    apply (rule exI[of _ bs2], rule exI[of _ "InstValue c"], rule exI[of _ args])
    apply (rule exI[of _ ty])
    apply (intro conjI)
    using fns pre F II d(1) nb d(5) ft abort rewrite
    by (blast | simp)+
qed

theorem exactly_one_injection_per_run_witness:
  "runAll (exConfig RuntimeMiscompile True) exState [''idle'', ''caller'', ''other'']
     = [Returned exState, Returned exStateMiscompiled, Returned exStateMiscompiled]
   \<and> CausedError exStateMiscompiled
   \<and> lookupFunction (passModule exStateMiscompiled) ''other'' = Some exOther
   \<and> findTargetCall exOther ''target''
       = Some (Inst 1 (ApplyInst (InstValue 0) [] (NamedType ''Int'')))"
proof -
  let ?cfg = "exConfig RuntimeMiscompile True"
  let ?fns = "[''idle'', ''caller'', ''other'']"
  have h1: "TargetFailureKind ?cfg \<noteq> NoneKind" by (simp add: exConfig_simps)
  have h2: "FunctionTarget ?cfg \<noteq> []" by (simp add: exConfig_simps)
  have h4: "\<exists>fn\<in>set ?fns. hasTargetCall (passModule exState) (FunctionTarget ?cfg) fn"
    using exState_hasTargetCall(2) by (simp add: exConfig_simps)
  have k: "TargetFailureKind ?cfg = RuntimeMiscompile \<or> TargetFailureKind ?cfg = RuntimeCrasher"
    by (simp add: exConfig_simps)
  from exactly_one_injection_per_run[OF h1 h2 exState_simps(2) h4]
  have all: "runAll ?cfg exState ?fns
     = [Returned exState, Returned exStateMiscompiled, Returned exStateMiscompiled]"
  proof (elim exE conjE)
    fix pre fn post F II
    assume fns: "?fns = pre @ fn # post"
      and pre: "\<forall>g\<in>set pre. \<not> hasTargetCall (passModule exState) (FunctionTarget ?cfg) g"
      and F: "lookupFunction (passModule exState) fn = Some F"
      and II: "findTargetCall F (FunctionTarget ?cfg) = Some II"
      and rw: "TargetFailureKind ?cfg = RuntimeMiscompile \<or> TargetFailureKind ?cfg = RuntimeCrasher
              \<longrightarrow> (\<exists>st1. run ?cfg exState fn = Returned st1 \<and> CausedError st1
                     \<and> runAll ?cfg exState ?fns
                         = replicate (length pre) (Returned exState)
                             @ replicate (Suc (length post)) (Returned st1)
                     \<and> (\<forall>g. run ?cfg st1 g = Returned st1))"
    from rw k obtain st1 where run: "run ?cfg exState fn = Returned st1"
      and all: "runAll ?cfg exState ?fns
                  = replicate (length pre) (Returned exState)
                      @ replicate (Suc (length post)) (Returned st1)"
      by blast
    from F II have has: "hasTargetCall (passModule exState) ''target'' fn"
      by (simp add: hasTargetCall_def exConfig_simps)
    from three_split[OF fns] pre has exState_hasTargetCall
    have "pre = [''idle''] \<and> fn = ''caller'' \<and> post = [''other'']"
      by (auto simp: exConfig_simps)
    moreover from this run have "st1 = exStateMiscompiled"
      by (simp add: exState_miscompile_run)
    ultimately show ?thesis using all by simp
  qed
  have "lookupFunction (passModule exStateMiscompiled) ''other'' = Some exOther"
    by (simp add: exStateMiscompiled_def lookupFunction_def exNames exCallerMiscompiled_def
          plainFunction_def)
  moreover have "findTargetCall exOther ''target''
       = Some (Inst 1 (ApplyInst (InstValue 0) [] (NamedType ''Int'')))"
    by (simp add: findTargetCall_def exOther_def plainFunction_def allInsts_def
          isDirectCallTo_def)
  moreover have "CausedError exStateMiscompiled" by (simp add: exStateMiscompiled_def)
  ultimately show ?thesis using all by simp
qed

text \<open>
  The claim as first stated has the flag set exactly once in every run with a matching
  call site. A run under the optimizer-crasher kind ends at the first matching call
  without setting it, and a run under kind none ends at the assertion before any call is
  looked at.
\<close>

theorem flag_set_once_counterexample:
  "hasTargetCall (passModule exState) ''target'' ''caller''
   \<and> runAll (exConfig OptimizerCrasher True) exState [''idle'', ''caller'', ''other'']
       = [Returned exState, Aborted (UnreachableExecuted ''Found the target!'') exState]
   \<and> \<not> CausedError exState
   \<and> runAll (exConfig NoneKind True) exState [''idle'', ''caller'', ''other'']
       = [Aborted (AssertionFailed ''TargetFailureKind != FailureKind::None'') exState]"
proof -
  let ?cfg = "exConfig OptimizerCrasher True"
  have idle: "run ?cfg exState ''idle'' = Returned exState"
    by (rule run_not_hasTargetCall)
       (simp_all add: exConfig_simps exState_hasTargetCall)
  have "findTargetCall exCaller (FunctionTarget ?cfg)
          = Some (Inst 3 (ApplyInst (InstValue 0) [InstValue 1] (NamedType ''Int'')))"
    unfolding exConfig_simps by (rule exCaller_findTargetCall)
  from findTargetCall_decomp[OF this] obtain bs1 is1 is2 bs2 c args ty where
    d: "fnBlocks exCaller
          = bs1 @ (is1 @ Inst 3 (ApplyInst (InstValue 0) [InstValue 1] (NamedType ''Int''))
                     # is2) # bs2"
       "\<forall>I\<in>set (concat bs1). \<not> isDirectCallTo exCaller (FunctionTarget ?cfg) I"
       "\<forall>I\<in>set is1. \<not> isDirectCallTo exCaller (FunctionTarget ?cfg) I"
       "isDirectCallTo exCaller (FunctionTarget ?cfg)
          (Inst 3 (ApplyInst (InstValue 0) [InstValue 1] (NamedType ''Int'')))"
       "instKind (Inst 3 (ApplyInst (InstValue 0) [InstValue 1] (NamedType ''Int'')))
          = ApplyInst (InstValue c) args ty"
    by blast
  have "run ?cfg exState ''caller'' = Aborted (UnreachableExecuted ''Found the target!'') exState"
    using run_first_match[OF _ exState_simps(2) _ exCaller_lookup d]
    by (simp add: exConfig_simps foundTarget_def)
  moreover have "run (exConfig NoneKind True) exState ''idle''
      = Aborted (AssertionFailed ''TargetFailureKind != FailureKind::None'') exState"
    using exState_simps(2) by (simp add: run_def exConfig_simps)
  ultimately show ?thesis
    using idle exState_hasTargetCall(2) exState_simps(2) by simp
qed

text \<open>
  C2, as amended. With failure kind none and a target name that is not empty, an
  invocation after the flag is set returns the state unchanged; with the flag clear the
  pass's assertion that the failure kind is not none fails, and in a build with assertions
  the process terminates there, before any instruction is looked at, on any function, with
  module and flag as they were.
\<close>

theorem none_kind_is_asserted_against:
  assumes "TargetFailureKind cfg = NoneKind" and "FunctionTarget cfg \<noteq> []"
  shows "(CausedError st \<longrightarrow> run cfg st fn = Returned st)
       \<and> (\<not> CausedError st \<and> AssertsEnabled cfg
            \<longrightarrow> run cfg st fn
                  = Aborted (AssertionFailed ''TargetFailureKind != FailureKind::None'') st)"
  using assms by (simp add: run_def)

theorem none_kind_is_asserted_against_witness:
  "run (exConfig NoneKind True) exState ''idle''
     = Aborted (AssertionFailed ''TargetFailureKind != FailureKind::None'') exState
   \<and> run (exConfig NoneKind True) (exState\<lparr> CausedError := True \<rparr>) ''caller''
       = Returned (exState\<lparr> CausedError := True \<rparr>)"
proof -
  let ?cfg = "exConfig NoneKind True"
  have h1: "TargetFailureKind ?cfg = NoneKind" and h2: "FunctionTarget ?cfg \<noteq> []"
    by (simp_all add: exConfig_simps)
  from none_kind_is_asserted_against[OF h1 h2, of exState "''idle''"]
  have a: "run ?cfg exState ''idle''
             = Aborted (AssertionFailed ''TargetFailureKind != FailureKind::None'') exState"
    by (simp add: exState_simps exConfig_simps)
  from none_kind_is_asserted_against[OF h1 h2, of "exState\<lparr> CausedError := True \<rparr>" "''caller''"]
  have b: "run ?cfg (exState\<lparr> CausedError := True \<rparr>) ''caller''
             = Returned (exState\<lparr> CausedError := True \<rparr>)"
    by simp
  from a b show ?thesis by simp
qed

text \<open>
  The claim as first stated has such an invocation return with nothing changed. With
  assertions it does not return; without them the walk goes on and the matching call is
  rewritten as on the runtime-crasher path.
\<close>

theorem none_kind_no_op_counterexample:
  "run (exConfig NoneKind True) exState ''caller''
     = Aborted (AssertionFailed ''TargetFailureKind != FailureKind::None'') exState
   \<and> run (exConfig NoneKind True) exState ''caller'' \<noteq> Returned exState
   \<and> run (exConfig NoneKind False) exState ''caller''
       = Returned \<lparr> passModule =
            [exIdle, exCallerCrashed, exOther,
             \<lparr> fnName = RuntimeCrasherFunctionName, fnLoweredType = crasherFuncType,
               fnLinkage = Shared, fnBare = True, fnTransparent = False, fnFragile = True,
               fnThunk = False,
               fnBlocks = [[Inst 0 BuiltinTrapInst, Inst 1 UnreachableInst]] \<rparr>],
          CausedError = True \<rparr>
   \<and> run (exConfig NoneKind False) exState ''caller'' \<noteq> Returned exState"
  by (simp add: run_def exConfig_def exState_def exModule_def lookupFunction_def exIdle_def
    exCaller_def exOther_def exCallerCrashed_def plainFunction_def exCallerEntry_def
    exCallerBody_def dyn_cast_ApplyInst_def dyn_cast_FunctionRefInst_def allInsts_def
    foundTarget_def getRuntimeCrasherFunction_def getOrCreateSharedFunction_def
    RuntimeCrasherFunctionName_def isDefinition_def freshId_def Let_def updateFunction_def
    insertBefore_def eraseFromParent_def replaceAllUsesWith_def replaceUsesInInst_def
    substValue_def crasherFuncType_def)

text \<open>
  C3. Failure kind runtime-miscompile, on a function that holds exactly one direct call of
  the target, nothing injected yet. The invocation returns with the flag set. The call is
  gone from its block, whose other instructions keep their order, so the block is shorter
  by exactly one; every operand of the function that read the call's result is the
  Undefined value of the call's result type, and no operand reads the result any more; no
  direct call of the target is left in the function; the other functions of the module are
  as before; and a later invocation on any function, with or without a matching call,
  returns the state unchanged.
\<close>

theorem miscompile_deletes_the_call:
  assumes "TargetFailureKind cfg = RuntimeMiscompile"
    and "FunctionTarget cfg \<noteq> []" and "\<not> CausedError st"
    and "lookupFunction (passModule st) fn = Some F"
    and "fnBlocks F = bs1 @ (is1 @ II # is2) # bs2"
    and "instKind II = ApplyInst c args ty"
    and "isDirectCallTo F (FunctionTarget cfg) II"
    and "\<forall>I\<in>set (concat bs1) \<union> set is1 \<union> set is2 \<union> set (concat bs2).
           \<not> isDirectCallTo F (FunctionTarget cfg) I"
  shows "\<exists>st' F'.
           run cfg st fn = Returned st' \<and> CausedError st'
         \<and> lookupFunction (passModule st') fn = Some F'
         \<and> fnBlocks F' = replaceAllUsesWith (instId II) (UndefValue ty) bs1
                @ (map (replaceUsesInInst (instId II) (UndefValue ty)) is1
                     @ map (replaceUsesInInst (instId II) (UndefValue ty)) is2)
                # replaceAllUsesWith (instId II) (UndefValue ty) bs2
         \<and> length (fnBlocks F' ! length bs1) + 1 = length (fnBlocks F ! length bs1)
         \<and> (\<forall>J. instId (replaceUsesInInst (instId II) (UndefValue ty) J) = instId J
                \<and> operands (instKind (replaceUsesInInst (instId II) (UndefValue ty) J))
                    = map (\<lambda>v. if v = InstValue (instId II) then UndefValue ty else v)
                        (operands (instKind J)))
         \<and> (\<forall>I\<in>set (allInsts F'). InstValue (instId II) \<notin> set (operands (instKind I)))
         \<and> findTargetCall F' (FunctionTarget cfg) = None
         \<and> (distinct (map instId (allInsts F))
               \<longrightarrow> instId II \<notin> set (map instId (allInsts F')))
         \<and> (\<forall>g. g \<noteq> fn \<longrightarrow> lookupFunction (passModule st') g = lookupFunction (passModule st) g)
         \<and> (\<forall>fn2. run cfg st' fn2 = Returned st')"
proof -
  let ?a = "instId II" and ?u = "UndefValue ty"
  let ?r = "replaceUsesInInst ?a ?u" and ?R = "replaceAllUsesWith ?a ?u"
  let ?F' = "F\<lparr> fnBlocks := ?R bs1 @ (map ?r is1 @ map ?r is2) # ?R bs2 \<rparr>"
  let ?st' = "\<lparr> passModule = updateFunction (passModule st) fn ?F', CausedError = True \<rparr>"
  have nm: "fnName F = fn" by (rule lookupFunction_name[OF assms(4)])
  have b1: "\<forall>I\<in>set (concat bs1). \<not> isDirectCallTo F (FunctionTarget cfg) I"
    and i1: "\<forall>I\<in>set is1. \<not> isDirectCallTo F (FunctionTarget cfg) I"
    using assms(8) by auto
  have run: "run cfg st fn = Returned ?st'"
    by (rule run_miscompile_site[OF assms(1-5) b1 i1 assms(7,6)])
  have look: "lookupFunction (passModule ?st') fn = Some ?F'"
    using lookupFunction_update_same[OF assms(4), of ?F'] nm by simp
  have len: "length (fnBlocks ?F' ! length bs1) + 1 = length (fnBlocks F ! length bs1)"
    unfolding assms(5)
    by (simp add: nth_append length_replaceAllUsesWith)
  have allF: "allInsts F = (concat bs1 @ is1) @ II # (is2 @ concat bs2)"
    by (simp add: allInsts_def assms(5))
  have allF': "allInsts ?F' = map ?r ((concat bs1 @ is1) @ (is2 @ concat bs2))"
    by (simp add: allInsts_def concat_replaceAllUsesWith)
  have nouse: "\<forall>I\<in>set (allInsts ?F'). InstValue ?a \<notin> set (operands (instKind I))"
    unfolding allF' using no_use_after_replace[of ?u ?a] by auto
  have gone: "findTargetCall ?F' (FunctionTarget cfg) = None"
  proof -
    have "\<not> isDirectCallTo ?F' (FunctionTarget cfg) I'" if "I' \<in> set (allInsts ?F')" for I'
    proof
      assume d: "isDirectCallTo ?F' (FunctionTarget cfg) I'"
      from that obtain J where J: "I' = ?r J"
        "J \<in> set (concat bs1) \<union> set is1 \<union> set is2 \<union> set (concat bs2)"
        unfolding allF' by auto
      from isDirectCallTo_after_erase[OF allF allF' d[unfolded J(1)]] J(2) assms(8)
      show False by blast
    qed
    then show ?thesis by (simp add: findTargetCall_def find_None_iff)
  qed
  have ids: "instId II \<notin> set (map instId (allInsts ?F'))"
    if "distinct (map instId (allInsts F))"
  proof -
    have "map instId (allInsts ?F') = map instId ((concat bs1 @ is1) @ (is2 @ concat bs2))"
      unfolding allF' by (rule map_instId_replaceUses)
    moreover from that have "instId II \<notin> set (map instId ((concat bs1 @ is1) @ (is2 @ concat bs2)))"
      unfolding allF by auto
    ultimately show ?thesis by simp
  qed
  have others: "lookupFunction (passModule ?st') g = lookupFunction (passModule st) g"
    if "g \<noteq> fn" for g
    using that nm by (simp add: lookupFunction_update_other)
  have later: "run cfg ?st' fn2 = Returned ?st'" for fn2
    by (rule run_after_error) simp
  have ops: "instId (?r J) = instId J
       \<and> operands (instKind (?r J))
           = map (\<lambda>v. if v = InstValue ?a then ?u else v) (operands (instKind J))" for J
    by (simp add: operands_replaceUsesInInst)
  have blocks: "fnBlocks ?F' = ?R bs1 @ (map ?r is1 @ map ?r is2) # ?R bs2" by simp
  have ce: "CausedError ?st'" by simp
  from run ce look blocks len ops nouse gone ids others later
  show ?thesis by blast
qed

theorem miscompile_deletes_the_call_witness:
  "\<exists>st' F'.
     run (exConfig RuntimeMiscompile True) exState ''caller'' = Returned st'
   \<and> CausedError st'
   \<and> lookupFunction (passModule st') ''caller'' = Some F'
   \<and> fnBlocks F'
       = [exCallerEntry, [Inst 4 (OtherInst ''return'' [UndefValue (NamedType ''Int'')])]]
   \<and> findTargetCall F' ''target'' = None
   \<and> run (exConfig RuntimeMiscompile True) st' ''other'' = Returned st'"
proof -
  let ?cfg = "exConfig RuntimeMiscompile True"
  let ?II = "Inst 3 (ApplyInst (InstValue 0) [InstValue 1] (NamedType ''Int''))"
  have h1: "TargetFailureKind ?cfg = RuntimeMiscompile" by (simp add: exConfig_simps)
  have h2: "FunctionTarget ?cfg \<noteq> []" by (simp add: exConfig_simps)
  have h3: "\<not> CausedError exState" by (simp add: exState_simps)
  have h6: "instKind ?II = ApplyInst (InstValue 0) [InstValue 1] (NamedType ''Int'')" by simp
  have h7: "isDirectCallTo exCaller (FunctionTarget ?cfg) ?II"
    unfolding exConfig_simps by (rule exCaller_direct_call)
  have h8: "\<forall>I\<in>set (concat [exCallerEntry]) \<union> set []
                \<union> set [Inst 4 (OtherInst ''return'' [InstValue 3])] \<union> set (concat []).
              \<not> isDirectCallTo exCaller (FunctionTarget ?cfg) I"
    unfolding exConfig_simps by (rule exCaller_no_other_call)
  from miscompile_deletes_the_call[OF h1 h2 h3 exCaller_lookup exCaller_blocks h6 h7 h8]
  show ?thesis
  proof (elim exE conjE)
    fix st' F'
    assume a: "run ?cfg exState ''caller'' = Returned st'" and b: "CausedError st'"
      and c: "lookupFunction (passModule st') ''caller'' = Some F'"
      and d: "fnBlocks F' = replaceAllUsesWith (instId ?II) (UndefValue (NamedType ''Int''))
                  [exCallerEntry]
                @ (map (replaceUsesInInst (instId ?II) (UndefValue (NamedType ''Int''))) []
                     @ map (replaceUsesInInst (instId ?II) (UndefValue (NamedType ''Int'')))
                         [Inst 4 (OtherInst ''return'' [InstValue 3])])
                # replaceAllUsesWith (instId ?II) (UndefValue (NamedType ''Int'')) []"
      and e: "findTargetCall F' (FunctionTarget ?cfg) = None"
      and f: "\<forall>fn2. run ?cfg st' fn2 = Returned st'"
    from d have d': "fnBlocks F'
         = [exCallerEntry, [Inst 4 (OtherInst ''return'' [UndefValue (NamedType ''Int'')])]]"
      by (simp add: replaceAllUsesWith_def replaceUsesInInst_def substValue_def
            exCallerEntry_def)
    from e have e': "findTargetCall F' ''target'' = None" by (simp add: exConfig_simps)
    from f have f': "run ?cfg st' ''other'' = Returned st'" by (rule spec)
    from a b c d' e' f' show ?thesis by (intro exI conjI)
  qed
qed

text \<open>
  C4, as amended. Failure kind runtime-crasher, at the first direct call of the target of a
  function, nothing injected yet. The invocation returns with the flag set. In the call's
  block a function_ref of the stub and an apply of it with no arguments, both new
  instructions, stand where the call stood, the apply immediately before the call's old
  position; the call is gone; every operand that read the call's result is the Undefined
  value of the call's result type. The module has a defined function under the stub name,
  and when it had no definition under that name before, the stub's body is one block of a
  trap followed by unreachable.
\<close>

theorem runtime_crasher_injection:
  assumes "TargetFailureKind cfg = RuntimeCrasher"
    and "FunctionTarget cfg \<noteq> []" and "\<not> CausedError st"
    and "lookupFunction (passModule st) fn = Some F"
    and "fnBlocks F = bs1 @ (is1 @ II # is2) # bs2"
    and "instKind II = ApplyInst c args ty"
    and "isDirectCallTo F (FunctionTarget cfg) II"
    and "\<forall>I\<in>set (concat bs1) \<union> set is1. \<not> isDirectCallTo F (FunctionTarget cfg) I"
  shows "\<exists>st' F' S.
           run cfg st fn = Returned st' \<and> CausedError st'
         \<and> lookupFunction (passModule st') fn = Some F'
         \<and> fnBlocks F' = replaceAllUsesWith (instId II) (UndefValue ty) bs1
                @ (map (replaceUsesInInst (instId II) (UndefValue ty)) is1
                     @ [Inst (freshId F) (FunctionRefInst RuntimeCrasherFunctionName),
                        Inst (Suc (freshId F))
                          (ApplyInst (InstValue (freshId F)) [] EmptyTupleType)]
                     @ map (replaceUsesInInst (instId II) (UndefValue ty)) is2)
                # replaceAllUsesWith (instId II) (UndefValue ty) bs2
         \<and> (\<forall>I\<in>set (allInsts F). instId I < freshId F)
         \<and> (\<forall>J. instId (replaceUsesInInst (instId II) (UndefValue ty) J) = instId J
                \<and> operands (instKind (replaceUsesInInst (instId II) (UndefValue ty) J))
                    = map (\<lambda>v. if v = InstValue (instId II) then UndefValue ty else v)
                        (operands (instKind J)))
         \<and> (\<forall>I\<in>set (allInsts F'). InstValue (instId II) \<notin> set (operands (instKind I)))
         \<and> (distinct (map instId (allInsts F))
               \<longrightarrow> instId II \<notin> set (map instId (allInsts F')))
         \<and> lookupFunction (passModule st') RuntimeCrasherFunctionName = Some S
         \<and> isDefinition S
         \<and> ((\<forall>S0. lookupFunction (passModule st) RuntimeCrasherFunctionName = Some S0
                    \<longrightarrow> \<not> isDefinition S0)
               \<longrightarrow> map (map instKind) (fnBlocks S) = [[BuiltinTrapInst, UnreachableInst]])"
proof -
  let ?a = "instId II" and ?u = "UndefValue ty" and ?n = "freshId F"
  let ?r = "replaceUsesInInst ?a ?u" and ?R = "replaceAllUsesWith ?a ?u"
  let ?new = "[Inst ?n (FunctionRefInst RuntimeCrasherFunctionName),
               Inst (Suc ?n) (ApplyInst (InstValue ?n) [] EmptyTupleType)]"
  let ?F' = "F\<lparr> fnBlocks := ?R bs1 @ (map ?r is1 @ ?new @ map ?r is2) # ?R bs2 \<rparr>"
  have b1: "\<forall>I\<in>set (concat bs1). \<not> isDirectCallTo F (FunctionTarget cfg) I"
    and i1: "\<forall>I\<in>set is1. \<not> isDirectCallTo F (FunctionTarget cfg) I"
    using assms(8) by auto
  from run_crasher_result[OF assms(1-5) b1 i1 assms(7,6) refl] obtain S M1 where
    g: "getRuntimeCrasherFunction cfg (passModule st) = Inr (S, M1)"
    and run: "run cfg st fn
                = Returned \<lparr> passModule = updateFunction M1 fn ?F', CausedError = True \<rparr>"
    and own: "lookupFunction (updateFunction M1 fn ?F') fn = Some ?F'"
    and stub: "fn \<noteq> RuntimeCrasherFunctionName
                 \<longrightarrow> lookupFunction (updateFunction M1 fn ?F') RuntimeCrasherFunctionName = Some S"
    by blast
  let ?st' = "\<lparr> passModule = updateFunction M1 fn ?F', CausedError = True \<rparr>"
  let ?S = "if fn = RuntimeCrasherFunctionName then ?F' else S"
  have fresh: "\<forall>I\<in>set (allInsts F). instId I < ?n" using freshId_fresh by blast
  have allF: "allInsts F = (concat bs1 @ is1) @ II # (is2 @ concat bs2)"
    by (simp add: allInsts_def assms(5))
  have allF': "allInsts ?F' = map ?r (concat bs1 @ is1) @ ?new @ map ?r (is2 @ concat bs2)"
    by (simp add: allInsts_def concat_replaceAllUsesWith)
  have "II \<in> set (allInsts F)" unfolding allF by simp
  with fresh have lt: "?a < ?n" by blast
  have nouse: "\<forall>I\<in>set (allInsts ?F'). InstValue ?a \<notin> set (operands (instKind I))"
    unfolding allF' using no_use_after_replace[of ?u ?a] lt by auto
  have ids: "?a \<notin> set (map instId (allInsts ?F'))" if "distinct (map instId (allInsts F))"
  proof -
    have "map instId (allInsts ?F')
            = map instId (concat bs1 @ is1) @ [?n, Suc ?n] @ map instId (is2 @ concat bs2)"
      unfolding allF' by simp
    moreover from that have "?a \<notin> set (map instId (concat bs1 @ is1))"
      and "?a \<notin> set (map instId (is2 @ concat bs2))"
      unfolding allF by auto
    ultimately show ?thesis using lt by auto
  qed
  have ops: "instId (?r J) = instId J
       \<and> operands (instKind (?r J))
           = map (\<lambda>v. if v = InstValue ?a then ?u else v) (operands (instKind J))" for J
    by (simp add: operands_replaceUsesInInst)
  have slook: "lookupFunction (passModule ?st') RuntimeCrasherFunctionName = Some ?S"
    using own stub by auto
  have sdef: "isDefinition ?S"
    using getRuntimeCrasherFunction_result(2)[OF g] by (simp add: isDefinition_def)
  have body: "map (map instKind) (fnBlocks ?S) = [[BuiltinTrapInst, UnreachableInst]]"
    if nodef: "\<forall>S0. lookupFunction (passModule st) RuntimeCrasherFunctionName = Some S0
                 \<longrightarrow> \<not> isDefinition S0"
  proof -
    have ne: "fn \<noteq> RuntimeCrasherFunctionName"
      using nodef assms(4) isDefinition_at_site[OF assms(5)] by auto
    note na = getRuntimeCrasherFunction_result(4)[OF g]
    have "map (map instKind) (fnBlocks S) = [[BuiltinTrapInst, UnreachableInst]]"
    proof (cases "lookupFunction (passModule st) RuntimeCrasherFunctionName")
      case None
      from getRuntimeCrasherFunction_absent[OF na None] g show ?thesis by auto
    next
      case (Some S0)
      with nodef have "\<not> isDefinition S0" by simp
      from getRuntimeCrasherFunction_declared[OF na Some this] g show ?thesis by auto
    qed
    with ne show ?thesis by simp
  qed
  have blocks: "fnBlocks ?F' = ?R bs1 @ (map ?r is1 @ ?new @ map ?r is2) # ?R bs2" by simp
  have ce: "CausedError ?st'" by simp
  have look: "lookupFunction (passModule ?st') fn = Some ?F'" using own by simp
  show ?thesis
    apply (rule exI[of _ ?st'], rule exI[of _ ?F'], rule exI[of _ ?S])
    apply (intro conjI)
    using run ce look blocks fresh ops nouse ids slook sdef body
    by (blast | simp)+
qed

theorem runtime_crasher_injection_witness:
  "\<exists>st' F' S.
     run (exConfig RuntimeCrasher True) exState ''caller'' = Returned st'
   \<and> CausedError st'
   \<and> lookupFunction (passModule st') ''caller'' = Some F'
   \<and> fnBlocks F'
       = [exCallerEntry,
          [Inst 5 (FunctionRefInst RuntimeCrasherFunctionName),
           Inst 6 (ApplyInst (InstValue 5) [] EmptyTupleType),
           Inst 4 (OtherInst ''return'' [UndefValue (NamedType ''Int'')])]]
   \<and> lookupFunction (passModule st') RuntimeCrasherFunctionName = Some S
   \<and> map (map instKind) (fnBlocks S) = [[BuiltinTrapInst, UnreachableInst]]"
proof -
  let ?cfg = "exConfig RuntimeCrasher True"
  let ?II = "Inst 3 (ApplyInst (InstValue 0) [InstValue 1] (NamedType ''Int''))"
  have h1: "TargetFailureKind ?cfg = RuntimeCrasher" by (simp add: exConfig_simps)
  have h2: "FunctionTarget ?cfg \<noteq> []" by (simp add: exConfig_simps)
  have h6: "instKind ?II = ApplyInst (InstValue 0) [InstValue 1] (NamedType ''Int'')" by simp
  have h7: "isDirectCallTo exCaller (FunctionTarget ?cfg) ?II"
    unfolding exConfig_simps by (rule exCaller_direct_call)
  have h8: "\<forall>I\<in>set (concat [exCallerEntry]) \<union> set [].
              \<not> isDirectCallTo exCaller (FunctionTarget ?cfg) I"
    using exCaller_no_other_call by (simp add: exConfig_simps)
  have nodef: "\<forall>S0. lookupFunction (passModule exState) RuntimeCrasherFunctionName = Some S0
                 \<longrightarrow> \<not> isDefinition S0"
    by (simp add: exState_simps exModule_no_stub)
  from runtime_crasher_injection[OF h1 h2 exState_simps(2) exCaller_lookup exCaller_blocks
      h6 h7 h8]
  show ?thesis
  proof (elim exE conjE)
    fix st' F' S
    assume a: "run ?cfg exState ''caller'' = Returned st'" and b: "CausedError st'"
      and c: "lookupFunction (passModule st') ''caller'' = Some F'"
      and d: "fnBlocks F' = replaceAllUsesWith (instId ?II) (UndefValue (NamedType ''Int''))
                  [exCallerEntry]
                @ (map (replaceUsesInInst (instId ?II) (UndefValue (NamedType ''Int''))) []
                     @ [Inst (freshId exCaller) (FunctionRefInst RuntimeCrasherFunctionName),
                        Inst (Suc (freshId exCaller))
                          (ApplyInst (InstValue (freshId exCaller)) [] EmptyTupleType)]
                     @ map (replaceUsesInInst (instId ?II) (UndefValue (NamedType ''Int'')))
                         [Inst 4 (OtherInst ''return'' [InstValue 3])])
                # replaceAllUsesWith (instId ?II) (UndefValue (NamedType ''Int'')) []"
      and e: "lookupFunction (passModule st') RuntimeCrasherFunctionName = Some S"
      and f: "(\<forall>S0. lookupFunction (passModule exState) RuntimeCrasherFunctionName = Some S0
                    \<longrightarrow> \<not> isDefinition S0)
               \<longrightarrow> map (map instKind) (fnBlocks S) = [[BuiltinTrapInst, UnreachableInst]]"
    from d have d': "fnBlocks F'
       = [exCallerEntry,
          [Inst 5 (FunctionRefInst RuntimeCrasherFunctionName),
           Inst 6 (ApplyInst (InstValue 5) [] EmptyTupleType),
           Inst 4 (OtherInst ''return'' [UndefValue (NamedType ''Int'')])]]"
      by (simp add: exCaller_freshId replaceAllUsesWith_def replaceUsesInInst_def
            substValue_def exCallerEntry_def)
    from f nodef have f': "map (map instKind) (fnBlocks S) = [[BuiltinTrapInst, UnreachableInst]]"
      by (rule mp)
    from a b c d' e f' show ?thesis by (intro exI conjI)
  qed
qed

text \<open>
  The claim as first stated gives the stub the body trap, unreachable in every case. A
  module that already defines a function under the stub name keeps that function's body.
\<close>

theorem runtime_crasher_stub_body_counterexample:
  "run (exConfig RuntimeCrasher True) exStateWithStub ''caller''
     = Returned \<lparr> passModule = [exUserStub, exIdle, exCallerCrashed, exOther],
                  CausedError = True \<rparr>
   \<and> lookupFunction [exUserStub, exIdle, exCallerCrashed, exOther] RuntimeCrasherFunctionName
       = Some exUserStub
   \<and> map (map instKind) (fnBlocks exUserStub) = [[OtherInst ''return'' []]]
   \<and> map (map instKind) (fnBlocks exUserStub) \<noteq> [[BuiltinTrapInst, UnreachableInst]]"
proof -
  let ?cfg = "exConfig RuntimeCrasher True"
  have k: "TargetFailureKind ?cfg = RuntimeCrasher" by (simp add: exConfig_simps)
  have g: "getRuntimeCrasherFunction ?cfg (passModule exStateWithStub)
             = Inr (exUserStub, exUserStub # exModule)"
    unfolding exStateWithStub_simps
    by (rule getRuntimeCrasherFunction_defined)
       (simp_all add: k exWithStub_lookups exUserStub_body)
  have l: "lookupFunction (passModule exStateWithStub) ''caller'' = Some exCaller"
    by (simp add: exStateWithStub_simps exWithStub_lookups)
  have "\<forall>I\<in>set (concat [exCallerEntry]). \<not> isDirectCallTo exCaller (FunctionTarget ?cfg) I"
    and "\<forall>I\<in>set []. \<not> isDirectCallTo exCaller (FunctionTarget ?cfg) I"
    using exCaller_no_other_call by (simp_all add: exConfig_simps)
  from run_crasher_site[OF k _ exStateWithStub_simps(2) l exCaller_blocks this _ _ g,
      of "InstValue 0" "[InstValue 1]" "NamedType ''Int''"]
  have "run ?cfg exStateWithStub ''caller''
     = Returned \<lparr> passModule = updateFunction (exUserStub # exModule) ''caller''
          (exCaller\<lparr> fnBlocks :=
             replaceAllUsesWith 3 (UndefValue (NamedType ''Int'')) [exCallerEntry]
               @ (map (replaceUsesInInst 3 (UndefValue (NamedType ''Int''))) []
                    @ [Inst 5 (FunctionRefInst RuntimeCrasherFunctionName),
                       Inst 6 (ApplyInst (InstValue 5) [] EmptyTupleType)]
                    @ map (replaceUsesInInst 3 (UndefValue (NamedType ''Int'')))
                        [Inst 4 (OtherInst ''return'' [InstValue 3])])
               # replaceAllUsesWith 3 (UndefValue (NamedType ''Int'')) [] \<rparr>),
                  CausedError = True \<rparr>"
    using exCaller_direct_call by (simp add: exConfig_simps exCaller_freshId)
  then have "run ?cfg exStateWithStub ''caller''
     = Returned \<lparr> passModule = [exUserStub, exIdle, exCallerCrashed, exOther],
                  CausedError = True \<rparr>"
    unfolding exCaller_rewritten exWithStub_lookups .
  then show ?thesis by (simp add: exWithStub_lookups exUserStub_body)
qed




text \<open>
  C6. The stub factory is idempotent. Whenever its assertion lets it run, the first call
  on a module returns a stub that has a body and is the module's function of the stub
  name; a second call on the resulting module returns that same function and leaves the
  module as it is, also after a call site has been rewritten in another function; and a
  function that was a definition under the stub name beforehand is returned untouched,
  with the module unchanged.
\<close>

theorem crasher_function_idempotent:
  assumes "TargetFailureKind cfg = RuntimeCrasher \<or> \<not> AssertsEnabled cfg"
  shows "\<exists>S M1. getRuntimeCrasherFunction cfg M = Inr (S, M1)
           \<and> getRuntimeCrasherFunction cfg M1 = Inr (S, M1)
           \<and> isDefinition S
           \<and> lookupFunction M1 RuntimeCrasherFunctionName = Some S
           \<and> (\<forall>S0. lookupFunction M RuntimeCrasherFunctionName = Some S0 \<and> isDefinition S0
                  \<longrightarrow> S = S0 \<and> M1 = M)
           \<and> (\<forall>fn G. fn \<noteq> RuntimeCrasherFunctionName \<and> fnName G = fn
                  \<longrightarrow> getRuntimeCrasherFunction cfg (updateFunction M1 fn G)
                        = Inr (S, updateFunction M1 fn G))"
proof -
  have na: "\<not> (AssertsEnabled cfg \<and> TargetFailureKind cfg \<noteq> RuntimeCrasher)"
    using assms by auto
  from getRuntimeCrasherFunction_returns[OF na] obtain S M1 where
    r: "getRuntimeCrasherFunction cfg M = Inr (S, M1)" by blast
  note res = getRuntimeCrasherFunction_result(1,2)[OF r]
  have again: "getRuntimeCrasherFunction cfg M1 = Inr (S, M1)"
    by (rule getRuntimeCrasherFunction_defined[OF na res])
  have kept: "S = S0 \<and> M1 = M"
    if "lookupFunction M RuntimeCrasherFunctionName = Some S0" and "isDefinition S0" for S0
    using getRuntimeCrasherFunction_defined[OF na that] r by simp
  have other: "getRuntimeCrasherFunction cfg (updateFunction M1 fn G)
                 = Inr (S, updateFunction M1 fn G)"
    if "fn \<noteq> RuntimeCrasherFunctionName" and "fnName G = fn" for fn G
  proof -
    have "lookupFunction (updateFunction M1 fn G) RuntimeCrasherFunctionName = Some S"
      using that res(1) by (simp add: lookupFunction_update_other)
    from getRuntimeCrasherFunction_defined[OF na this res(2)] show ?thesis .
  qed
  from r again res kept other show ?thesis by blast
qed

theorem crasher_function_idempotent_witness:
  "\<exists>S M1. getRuntimeCrasherFunction (exConfig RuntimeCrasher True) exModule = Inr (S, M1)
      \<and> getRuntimeCrasherFunction (exConfig RuntimeCrasher True) M1 = Inr (S, M1)
      \<and> M1 = exModule @ [S]
      \<and> fnBlocks S = [[Inst 0 BuiltinTrapInst, Inst 1 UnreachableInst]]"
proof -
  have k: "TargetFailureKind (exConfig RuntimeCrasher True) = RuntimeCrasher
             \<or> \<not> AssertsEnabled (exConfig RuntimeCrasher True)"
    by (simp add: exConfig_def)
  from crasher_function_idempotent[OF k, of exModule] obtain S M1 where
    r: "getRuntimeCrasherFunction (exConfig RuntimeCrasher True) exModule = Inr (S, M1)"
       "getRuntimeCrasherFunction (exConfig RuntimeCrasher True) M1 = Inr (S, M1)"
    by blast
  have "lookupFunction exModule RuntimeCrasherFunctionName = None"
    by (simp add: lookupFunction_def exModule_def exIdle_def exCaller_def exOther_def
          plainFunction_def RuntimeCrasherFunctionName_def)
  from getRuntimeCrasherFunction_absent[OF _ this, of "exConfig RuntimeCrasher True"] r(1)
  have "M1 = exModule @ [S]"
    and "fnBlocks S = [[Inst 0 BuiltinTrapInst, Inst 1 UnreachableInst]]"
    by (auto simp: exConfig_def)
  with r show ?thesis by blast
qed

text \<open>
  C7. The walk of \<open>run\<close> over blocks and instructions is the spec's Matcher. When
  no instruction of the function is a direct call of the target, the invocation does
  nothing. Otherwise the instruction
  \<open>findTargetCall\<close> gives is an apply whose callee is the value of a function_ref
  instruction naming the target, no instruction of an earlier block or earlier in its
  block is such a call, and the invocation does what the loop body does for that
  instruction at that position. An apply whose callee is not the value of a function_ref
  instruction is never a match, and a function whose applies are all of that kind is left
  alone.
\<close>

theorem matcher_first_direct_call:
  assumes "FunctionTarget cfg \<noteq> []" and "\<not> CausedError st"
    and "\<not> (AssertsEnabled cfg \<and> TargetFailureKind cfg = NoneKind)"
    and "lookupFunction (passModule st) fn = Some F"
  shows "(findTargetCall F (FunctionTarget cfg) = None \<longrightarrow> run cfg st fn = Returned st)
       \<and> (\<forall>II. findTargetCall F (FunctionTarget cfg) = Some II \<longrightarrow>
            (\<exists>bs1 is1 is2 bs2 c args ty J.
               fnBlocks F = bs1 @ (is1 @ II # is2) # bs2
             \<and> (\<forall>I\<in>set (concat bs1) \<union> set is1. \<not> isDirectCallTo F (FunctionTarget cfg) I)
             \<and> instKind II = ApplyInst (InstValue c) args ty
             \<and> find (\<lambda>J. instId J = c) (allInsts F) = Some J
             \<and> instKind J = FunctionRefInst (FunctionTarget cfg)
             \<and> run cfg st fn
                 = foundTarget cfg st F (length bs1) (length is1) II (InstValue c, args, ty)))
       \<and> (\<forall>I\<in>set (allInsts F). \<forall>callee args ty.
             instKind I = ApplyInst callee args ty \<and> \<not> isFunctionRefValue F callee
               \<longrightarrow> \<not> isDirectCallTo F (FunctionTarget cfg) I)
       \<and> ((\<forall>I\<in>set (allInsts F). \<forall>callee args ty.
              instKind I = ApplyInst callee args ty \<longrightarrow> \<not> isFunctionRefValue F callee)
            \<longrightarrow> run cfg st fn = Returned st)"
proof -
  let ?tgt = "FunctionTarget cfg"
  have none: "run cfg st fn = Returned st" if "findTargetCall F ?tgt = None"
  proof -
    from that assms(1) have "\<forall>I\<in>set (allInsts F). \<not> isDirectCallTo F ?tgt I"
      by (simp add: findTargetCall_def find_None_iff)
    from run_no_match[OF assms(3,4) this] show ?thesis .
  qed
  have some: "\<exists>bs1 is1 is2 bs2 c args ty J.
               fnBlocks F = bs1 @ (is1 @ II # is2) # bs2
             \<and> (\<forall>I\<in>set (concat bs1) \<union> set is1. \<not> isDirectCallTo F ?tgt I)
             \<and> instKind II = ApplyInst (InstValue c) args ty
             \<and> find (\<lambda>J. instId J = c) (allInsts F) = Some J
             \<and> instKind J = FunctionRefInst ?tgt
             \<and> run cfg st fn
                 = foundTarget cfg st F (length bs1) (length is1) II (InstValue c, args, ty)"
    if "findTargetCall F ?tgt = Some II" for II
  proof -
    from findTargetCall_decomp[OF that] obtain bs1 is1 is2 bs2 where
      d: "fnBlocks F = bs1 @ (is1 @ II # is2) # bs2"
         "\<forall>I\<in>set (concat bs1). \<not> isDirectCallTo F ?tgt I"
         "\<forall>I\<in>set is1. \<not> isDirectCallTo F ?tgt I"
         "isDirectCallTo F ?tgt II"
      by blast
    from isDirectCallTo_functionRef[OF d(4)] obtain c args ty J where
      k: "instKind II = ApplyInst (InstValue c) args ty"
         "find (\<lambda>J. instId J = c) (allInsts F) = Some J" "instKind J = FunctionRefInst ?tgt"
      by blast
    note r = run_first_match[OF assms(1,2,3,4) d k(1)]
    have "\<forall>I\<in>set (concat bs1) \<union> set is1. \<not> isDirectCallTo F ?tgt I" using d(2,3) by blast
    with d(1) k r show ?thesis by blast
  qed
  have ind: "\<not> isDirectCallTo F ?tgt I"
    if "instKind I = ApplyInst callee args ty" and "\<not> isFunctionRefValue F callee"
    for I callee args ty
    using that by (rule indirect_not_matched)
  have only: "run cfg st fn = Returned st"
    if a: "\<forall>I\<in>set (allInsts F). \<forall>callee args ty.
              instKind I = ApplyInst callee args ty \<longrightarrow> \<not> isFunctionRefValue F callee"
  proof -
    have "\<not> isDirectCallTo F ?tgt I" if "I \<in> set (allInsts F)" for I
    proof
      assume d: "isDirectCallTo F ?tgt I"
      from isDirectCallTo_apply[OF d] obtain c args ty where
        k: "instKind I = ApplyInst (InstValue c) args ty" by blast
      with a that have "\<not> isFunctionRefValue F (InstValue c)" by blast
      from indirect_not_matched[OF k this] d show False by blast
    qed
    then have "\<forall>I\<in>set (allInsts F). \<not> isDirectCallTo F ?tgt I" by blast
    from run_no_match[OF assms(3,4) this] show ?thesis .
  qed
  from none some ind only show ?thesis by blast
qed

theorem matcher_first_direct_call_witness:
  "findTargetCall exCaller ''target''
     = Some (Inst 3 (ApplyInst (InstValue 0) [InstValue 1] (NamedType ''Int'')))
   \<and> run (exConfig OptimizerCrasher True) exState ''caller''
       = Aborted (UnreachableExecuted ''Found the target!'') exState
   \<and> findTargetCall exIdle ''target'' = None
   \<and> run (exConfig OptimizerCrasher True) exState ''idle'' = Returned exState"
proof -
  let ?cfg = "exConfig OptimizerCrasher True"
  have h1: "FunctionTarget ?cfg \<noteq> []" by (simp add: exConfig_simps)
  have h3: "\<not> (AssertsEnabled ?cfg \<and> TargetFailureKind ?cfg = NoneKind)"
    by (simp add: exConfig_simps)
  have fc: "findTargetCall exCaller (FunctionTarget ?cfg)
              = Some (Inst 3 (ApplyInst (InstValue 0) [InstValue 1] (NamedType ''Int'')))"
    unfolding exConfig_simps by (rule exCaller_findTargetCall)
  have fi: "findTargetCall exIdle (FunctionTarget ?cfg) = None"
    unfolding exConfig_simps by (rule exIdle_findTargetCall)
  from matcher_first_direct_call[OF h1 exState_simps(2) h3 exCaller_lookup] fc
  obtain b i Apply where
    "run ?cfg exState ''caller''
       = foundTarget ?cfg exState exCaller b i
           (Inst 3 (ApplyInst (InstValue 0) [InstValue 1] (NamedType ''Int''))) Apply"
    by blast
  then have caller: "run ?cfg exState ''caller''
                       = Aborted (UnreachableExecuted ''Found the target!'') exState"
    by (simp add: foundTarget_def exConfig_simps)
  from matcher_first_direct_call[OF h1 exState_simps(2) h3 exIdle_lookup] fi
  have idle: "run ?cfg exState ''idle'' = Returned exState" by blast
  from caller idle exCaller_findTargetCall exIdle_findTargetCall show ?thesis by simp
qed

text \<open>
  C8. With an empty target function name the pass is switched off: under every failure
  kind and in either build, an invocation on any function returns at once with module and
  flag as they were, and so does every invocation of a whole run.
\<close>

theorem empty_target_disables:
  assumes "FunctionTarget cfg = []"
  shows "run cfg st fn = Returned st
       \<and> runAll cfg st fns = replicate (length fns) (Returned st)"
  using assms by (simp add: run_def runAll_empty_target)

theorem empty_target_disables_witness:
  "run \<lparr> FunctionTarget = [], TargetFailureKind = RuntimeCrasher, AssertsEnabled = True \<rparr>
       exState ''caller'' = Returned exState
   \<and> runAll \<lparr> FunctionTarget = [], TargetFailureKind = RuntimeCrasher, AssertsEnabled = True \<rparr>
       exState [''caller'', ''other''] = [Returned exState, Returned exState]"
  using empty_target_disables[of "\<lparr> FunctionTarget = [], TargetFailureKind = RuntimeCrasher,
      AssertsEnabled = True \<rparr>" exState "''caller''" "[''caller'', ''other'']"]
  by (simp del: runAll.simps)

text \<open>
  C9. The stub is found by the fixed name \<open>bug_reducer_runtime_crasher_func\<close>. When the
  module already holds a definition under that name, whatever its body, the factory
  returns that function and leaves the module as it is; the runtime-crasher injection
  changes the module only in the function it rewrites, the function_ref it inserts refers
  to the stub name, and, the rewritten function being another one, the function under the
  stub name is afterwards the one that was there before.
\<close>

theorem existing_stub_reused:
  assumes "TargetFailureKind cfg = RuntimeCrasher"
    and "lookupFunction (passModule st) RuntimeCrasherFunctionName = Some S"
    and "isDefinition S"
    and "FunctionTarget cfg \<noteq> []" and "\<not> CausedError st"
    and "lookupFunction (passModule st) fn = Some F"
    and "fnBlocks F = bs1 @ (is1 @ II # is2) # bs2"
    and "instKind II = ApplyInst c args ty"
    and "isDirectCallTo F (FunctionTarget cfg) II"
    and "\<forall>I\<in>set (concat bs1) \<union> set is1. \<not> isDirectCallTo F (FunctionTarget cfg) I"
  shows "getRuntimeCrasherFunction cfg (passModule st) = Inr (S, passModule st)
       \<and> run cfg st fn
           = Returned \<lparr> passModule = updateFunction (passModule st) fn
                 (F\<lparr> fnBlocks := replaceAllUsesWith (instId II) (UndefValue ty) bs1
                        @ (map (replaceUsesInInst (instId II) (UndefValue ty)) is1
                             @ [Inst (freshId F) (FunctionRefInst RuntimeCrasherFunctionName),
                                Inst (Suc (freshId F))
                                  (ApplyInst (InstValue (freshId F)) [] EmptyTupleType)]
                             @ map (replaceUsesInInst (instId II) (UndefValue ty)) is2)
                        # replaceAllUsesWith (instId II) (UndefValue ty) bs2 \<rparr>),
               CausedError = True \<rparr>
       \<and> (fn \<noteq> RuntimeCrasherFunctionName
            \<longrightarrow> (\<exists>st'. run cfg st fn = Returned st'
                   \<and> lookupFunction (passModule st') RuntimeCrasherFunctionName = Some S))"
proof -
  have na: "\<not> (AssertsEnabled cfg \<and> TargetFailureKind cfg \<noteq> RuntimeCrasher)"
    using assms(1) by simp
  have g: "getRuntimeCrasherFunction cfg (passModule st) = Inr (S, passModule st)"
    by (rule getRuntimeCrasherFunction_defined[OF na assms(2,3)])
  have b1: "\<forall>I\<in>set (concat bs1). \<not> isDirectCallTo F (FunctionTarget cfg) I"
    and i1: "\<forall>I\<in>set is1. \<not> isDirectCallTo F (FunctionTarget cfg) I"
    using assms(10) by auto
  note run = run_crasher_site[OF assms(1,4,5,6,7) b1 i1 assms(9,8) g]
  have "\<exists>st'. run cfg st fn = Returned st'
          \<and> lookupFunction (passModule st') RuntimeCrasherFunctionName = Some S"
    if "fn \<noteq> RuntimeCrasherFunctionName"
    unfolding run using that assms(2) lookupFunction_name[OF assms(6)]
    by (simp add: lookupFunction_update_other)
  with g run show ?thesis by blast
qed

theorem existing_stub_reused_witness:
  "getRuntimeCrasherFunction (exConfig RuntimeCrasher True) (passModule exStateWithStub)
     = Inr (exUserStub, passModule exStateWithStub)
   \<and> run (exConfig RuntimeCrasher True) exStateWithStub ''caller''
       = Returned \<lparr> passModule = [exUserStub, exIdle, exCallerCrashed, exOther],
                    CausedError = True \<rparr>
   \<and> lookupFunction [exUserStub, exIdle, exCallerCrashed, exOther] RuntimeCrasherFunctionName
       = Some exUserStub
   \<and> fnBlocks exUserStub = [[Inst 0 (OtherInst ''return'' [])]]"
proof -
  let ?cfg = "exConfig RuntimeCrasher True"
  let ?II = "Inst 3 (ApplyInst (InstValue 0) [InstValue 1] (NamedType ''Int''))"
  have h1: "TargetFailureKind ?cfg = RuntimeCrasher" by (simp add: exConfig_simps)
  have h2: "lookupFunction (passModule exStateWithStub) RuntimeCrasherFunctionName
              = Some exUserStub"
    by (simp add: exStateWithStub_simps exWithStub_lookups)
  have h4: "FunctionTarget ?cfg \<noteq> []" by (simp add: exConfig_simps)
  have h6: "lookupFunction (passModule exStateWithStub) ''caller'' = Some exCaller"
    by (simp add: exStateWithStub_simps exWithStub_lookups)
  have h8: "instKind ?II = ApplyInst (InstValue 0) [InstValue 1] (NamedType ''Int'')" by simp
  have h9: "isDirectCallTo exCaller (FunctionTarget ?cfg) ?II"
    unfolding exConfig_simps by (rule exCaller_direct_call)
  have h10: "\<forall>I\<in>set (concat [exCallerEntry]) \<union> set [].
              \<not> isDirectCallTo exCaller (FunctionTarget ?cfg) I"
    using exCaller_no_other_call by (simp add: exConfig_simps)
  note t = existing_stub_reused[OF h1 h2 exUserStub_body(1) h4 exStateWithStub_simps(2) h6
      exCaller_blocks h8 h9 h10]
  from t have g: "getRuntimeCrasherFunction ?cfg (passModule exStateWithStub)
                    = Inr (exUserStub, passModule exStateWithStub)" by (rule conjunct1)
  from t have "run ?cfg exStateWithStub ''caller''
     = Returned \<lparr> passModule = updateFunction (exUserStub # exModule) ''caller''
          (exCaller\<lparr> fnBlocks :=
             replaceAllUsesWith 3 (UndefValue (NamedType ''Int'')) [exCallerEntry]
               @ (map (replaceUsesInInst 3 (UndefValue (NamedType ''Int''))) []
                    @ [Inst 5 (FunctionRefInst RuntimeCrasherFunctionName),
                       Inst 6 (ApplyInst (InstValue 5) [] EmptyTupleType)]
                    @ map (replaceUsesInInst 3 (UndefValue (NamedType ''Int'')))
                        [Inst 4 (OtherInst ''return'' [InstValue 3])])
               # replaceAllUsesWith 3 (UndefValue (NamedType ''Int'')) [] \<rparr>),
                  CausedError = True \<rparr>"
    by (simp add: exCaller_freshId exStateWithStub_simps)
  then have r: "run ?cfg exStateWithStub ''caller''
     = Returned \<lparr> passModule = [exUserStub, exIdle, exCallerCrashed, exOther],
                  CausedError = True \<rparr>"
    unfolding exCaller_rewritten exWithStub_lookups .
  have "fnBlocks exUserStub = [[Inst 0 (OtherInst ''return'' [])]]"
    by (simp add: exUserStub_def plainFunction_def)
  with g r exWithStub_lookups(4) show ?thesis by simp
qed



end
